theory Spec2Isabelle
  imports Complex_Main "HOL-Library.Word" "HOL-Library.Signed_Division"
begin

section \<open>Peer catchup reputation (package catchup)\<close>

text \<open>
  The Go struct \<open>PeerCatchupMetrics\<close>. The \<open>int64\<close> counters, the \<open>int\<close> counter
  \<open>ConsecutiveFailures\<close> (64 bits on the supported platforms) and the \<open>time.Duration\<close>
  fields (an \<open>int64\<close> of nanoseconds) are 64-bit words, so that \<open>++\<close> wraps as in Go.
  \<open>time.Time\<close> values are integers with the zero value \<open>0\<close>; the clock read by
  \<open>time.Now()\<close> is an argument of the operation. The mutex is not modelled: the
  operations are run one after the other.

  \<open>ReputationScore\<close> is a \<open>float64\<close> in the source and a real number here. The two
  agree on every score the operations below produce from \<open>0\<close> or \<open>50\<close>, which are
  integers of magnitude at most \<open>100\<close> (lemma \<open>run_ops_score_range\<close>), where
  \<open>float64\<close> arithmetic is exact.
\<close>

type_synonym int64 = "64 word"
type_synonym go_time = int

record PeerCatchupMetrics =
  PeerID :: string
  SuccessfulRequests :: int64
  FailedRequests :: int64
  TotalRequests :: int64
  AverageResponseTime :: int64
  LastResponseTime :: int64
  ReputationScore :: real
  MaliciousAttempts :: int64
  ConsecutiveFailures :: int64
  LastSuccessTime :: go_time
  LastFailureTime :: go_time
  LastRequestTime :: go_time
  TotalHeadersFetched :: int64

text \<open>The zero value \<open>PeerCatchupMetrics{}\<close>.\<close>

definition zero_PeerCatchupMetrics :: PeerCatchupMetrics where
  "zero_PeerCatchupMetrics =
     \<lparr>PeerID = [], SuccessfulRequests = 0, FailedRequests = 0, TotalRequests = 0,
      AverageResponseTime = 0, LastResponseTime = 0, ReputationScore = 0,
      MaliciousAttempts = 0, ConsecutiveFailures = 0, LastSuccessTime = 0,
      LastFailureTime = 0, LastRequestTime = 0, TotalHeadersFetched = 0\<rparr>"

datatype go_panic =
    IntegerDivideByZero
  | MakeSliceCapOutOfRange
  | SliceBoundsOutOfRange
  | IndexOutOfRange string

definition RecordSuccess :: "go_time \<Rightarrow> PeerCatchupMetrics \<Rightarrow> PeerCatchupMetrics" where
  "RecordSuccess now pm =
     (let pm1 = pm\<lparr>SuccessfulRequests := SuccessfulRequests pm + 1,
                    TotalRequests := TotalRequests pm + 1,
                    ConsecutiveFailures := 0,
                    LastSuccessTime := now\<rparr>;
          pm2 = pm1\<lparr>ReputationScore := ReputationScore pm1 + 10\<rparr>
      in if ReputationScore pm2 > 100 then pm2\<lparr>ReputationScore := 100\<rparr> else pm2)"

definition RecordFailure :: "go_time \<Rightarrow> PeerCatchupMetrics \<Rightarrow> PeerCatchupMetrics" where
  "RecordFailure now pm =
     (let pm1 = pm\<lparr>FailedRequests := FailedRequests pm + 1,
                    TotalRequests := TotalRequests pm + 1,
                    ConsecutiveFailures := ConsecutiveFailures pm + 1,
                    LastFailureTime := now\<rparr>
      in if ReputationScore pm1 > 0
         then pm1\<lparr>ReputationScore := ReputationScore pm1 - 2\<rparr> else pm1)"

definition RecordMaliciousAttempt :: "PeerCatchupMetrics \<Rightarrow> PeerCatchupMetrics" where
  "RecordMaliciousAttempt pm =
     pm\<lparr>MaliciousAttempts := MaliciousAttempts pm + 1, ReputationScore := 0\<rparr>"

definition IsTrusted :: "PeerCatchupMetrics \<Rightarrow> bool" where
  "IsTrusted pm \<longleftrightarrow> ReputationScore pm > 50 \<and> MaliciousAttempts pm = 0"

definition IsMalicious :: "PeerCatchupMetrics \<Rightarrow> bool" where
  "IsMalicious pm \<longleftrightarrow> ReputationScore pm < 10 \<and> 0 < sint (MaliciousAttempts pm)"

definition IsBad :: "PeerCatchupMetrics \<Rightarrow> bool" where
  "IsBad pm \<longleftrightarrow> ReputationScore pm < 10"

definition GetReputation :: "PeerCatchupMetrics \<Rightarrow> real" where
  "GetReputation pm = ReputationScore pm"

text \<open>
  Go's \<open>/\<close> on \<open>int64\<close> truncates towards zero, wraps on \<open>MinInt64 / -1\<close> and panics
  when the divisor is zero.
\<close>

definition int64_div :: "int64 \<Rightarrow> int64 \<Rightarrow> go_panic + int64" where
  "int64_div a b =
     (if b = 0 then Inl IntegerDivideByZero else Inr (word_of_int (sint a sdiv sint b)))"

definition UpdateReputation ::
  "bool \<Rightarrow> int64 \<Rightarrow> PeerCatchupMetrics \<Rightarrow> go_panic + PeerCatchupMetrics" where
  "UpdateReputation success responseTime pm =
     (if success then
        (let pm1 = (if ReputationScore pm < 100
                    then pm\<lparr>ReputationScore := ReputationScore pm + 1\<rparr> else pm);
             pm2 = pm1\<lparr>ConsecutiveFailures := 0, LastResponseTime := responseTime\<rparr>
         in if AverageResponseTime pm2 = 0
            then Inr (pm2\<lparr>AverageResponseTime := responseTime\<rparr>)
            else (case int64_div
                         (AverageResponseTime pm2 * SuccessfulRequests pm2 + responseTime)
                         (SuccessfulRequests pm2 + 1) of
                    Inl p \<Rightarrow> Inl p
                  | Inr avg \<Rightarrow> Inr (pm2\<lparr>AverageResponseTime := avg\<rparr>)))
      else
        (let pm1 = (if ReputationScore pm > 0
                    then pm\<lparr>ReputationScore := ReputationScore pm - 2\<rparr> else pm)
         in Inr (pm1\<lparr>ConsecutiveFailures := ConsecutiveFailures pm1 + 1\<rparr>)))"

text \<open>One call of a reputation operation, and a sequence of calls on one peer record.
  A panic ends the sequence.\<close>

datatype reputation_op =
    CallRecordSuccess go_time
  | CallRecordFailure go_time
  | CallRecordMaliciousAttempt
  | CallUpdateReputation bool int64

fun apply_reputation_op ::
  "reputation_op \<Rightarrow> PeerCatchupMetrics \<Rightarrow> go_panic + PeerCatchupMetrics" where
  "apply_reputation_op (CallRecordSuccess now) pm = Inr (RecordSuccess now pm)"
| "apply_reputation_op (CallRecordFailure now) pm = Inr (RecordFailure now pm)"
| "apply_reputation_op CallRecordMaliciousAttempt pm = Inr (RecordMaliciousAttempt pm)"
| "apply_reputation_op (CallUpdateReputation success rt) pm = UpdateReputation success rt pm"

fun run_reputation_ops ::
  "reputation_op list \<Rightarrow> PeerCatchupMetrics \<Rightarrow> go_panic + PeerCatchupMetrics" where
  "run_reputation_ops [] pm = Inr pm"
| "run_reputation_ops (op # ops) pm =
     (case apply_reputation_op op pm of
        Inl p \<Rightarrow> Inl p
      | Inr pm' \<Rightarrow> run_reputation_ops ops pm')"

text \<open>
  The registry \<open>CatchupMetrics\<close>: a map from peer id to the peer's record. The receiver
  is a pointer that may be \<open>nil\<close>, hence an option. \<open>GetOrCreatePeerMetrics\<close> returns
  the record it hands out together with the registry after the call.
\<close>

record CatchupMetrics =
  PeerMetrics :: "string \<rightharpoonup> PeerCatchupMetrics"

definition NewCatchupMetrics :: CatchupMetrics where
  "NewCatchupMetrics = \<lparr>PeerMetrics = Map.empty\<rparr>"

definition GetOrCreatePeerMetrics ::
  "CatchupMetrics option \<Rightarrow> string \<Rightarrow> PeerCatchupMetrics \<times> CatchupMetrics option" where
  "GetOrCreatePeerMetrics cm peerID =
     (case cm of
        None \<Rightarrow> (zero_PeerCatchupMetrics, None)
      | Some reg \<Rightarrow>
          (case PeerMetrics reg peerID of
             Some metric \<Rightarrow> (metric, Some reg)
           | None \<Rightarrow>
               (let metric = zero_PeerCatchupMetrics\<lparr>PeerID := peerID, ReputationScore := 50\<rparr>
                in (metric, Some (reg\<lparr>PeerMetrics := (PeerMetrics reg)(peerID \<mapsto> metric)\<rparr>)))))"

definition GetPeerMetrics :: "CatchupMetrics \<Rightarrow> string \<Rightarrow> PeerCatchupMetrics option" where
  "GetPeerMetrics cm peerID = PeerMetrics cm peerID"


section \<open>UTXO store, creation path (package aerospike, create.go)\<close>

subsection \<open>Transactions, bins and errors\<close>

type_synonym byte = "8 word"
type_synonym bytes = "byte list"
type_synonym uint32 = "32 word"
type_synonym uint64 = "64 word"

text \<open>\<open>chainhash.Hash\<close> is a 32-byte array; only its bytes matter here.\<close>

type_synonym Hash = bytes

text \<open>The parts of go-bt's \<open>bt.Output\<close>, \<open>bt.Input\<close> and \<open>bt.Tx\<close> that create.go reads.
  \<open>tx.Outputs\<close> is a slice of pointers, and create.go tests each for \<open>nil\<close>.\<close>

record Output =
  Satoshis :: uint64
  LockingScript :: bytes

record Input =
  PreviousTxID :: bytes
  PreviousTxOutIndex :: uint32
  UnlockingScript :: bytes
  SequenceNumber :: uint32
  PreviousTxSatoshis :: uint64
  PreviousTxScript :: "bytes option"

record Tx =
  Version :: uint32
  LockTime :: uint32
  Inputs :: "Input list"
  Outputs :: "Output option list"

text \<open>The error kinds of the repository's \<open>errors\<close> package that occur on this path,
  Aerospike's result codes, and the values an \<open>error\<close> can hold. A teranode error keeps
  its kind and its message text; the wrapped cause is dropped. A panic is an outcome of
  its own.\<close>

datatype ErrKind =
    ERR_PROCESSING
  | ERR_TX_EXISTS
  | ERR_STORAGE_ERROR
  | ERR_INVALID_ARGUMENT
  | ERR_BLOB_ALREADY_EXISTS

datatype ResultCode =
    KEY_EXISTS_ERROR
  | RECORD_TOO_BIG
  | KEY_NOT_FOUND_ERROR
  | OtherResultCode nat

datatype go_error =
    TeranodeError ErrKind string
  | AerospikeError ResultCode
  | ConversionError string
  | ForeignError string
  | Panic go_panic

text \<open>The bin names of package \<open>fields\<close> (its constants are distinct strings) and the
  values create.go puts into bins.\<close>

datatype FieldName =
    fields_TxID | fields_Version | fields_LockTime | fields_Fee | fields_SizeInBytes
  | fields_ExtendedSize | fields_SpentUtxos | fields_IsCoinbase | fields_SpendingHeight
  | fields_Conflicting | fields_Locked | fields_Utxos | fields_RecordUtxos
  | fields_TotalExtraRecs | fields_BlockIDs | fields_BlockHeights | fields_SubtreeIdxs
  | fields_TotalUtxos | fields_UnminedSince | fields_CreatedAt | fields_External
  | fields_Inputs | fields_Outputs | fields_DeleteAtHeight

datatype BinValue =
    IntegerValue int
  | BoolValue bool
  | BytesValue bytes
  | ListValue "bytes option list"
  | Uint32List "uint32 list"
  | IntList "int list"

type_synonym Bin = "FieldName \<times> BinValue"

text \<open>Reading a bin of a record by name.\<close>

definition bin_value :: "Bin list \<Rightarrow> FieldName \<Rightarrow> BinValue option" where
  "bin_value bins name = map_of bins name"

datatype FileType = FileTypeTx | FileTypeOutputs

text \<open>The state the creation path writes: the records of the Aerospike set by key, and
  the blobs of the external store by key and file type.\<close>

record world =
  records :: "bytes \<rightharpoonup> Bin list"
  blobs :: "bytes \<times> FileType \<rightharpoonup> bytes"

text \<open>The fields of \<open>meta.Data\<close> that \<open>Create\<close> reads or sets, and \<open>utxo.CreateOptions\<close>.\<close>

record MetaData =
  meta_IsCoinbase :: bool
  meta_Conflicting :: bool
  meta_Locked :: bool

record CreateOptions =
  opt_TxID :: "Hash option"
  opt_IsCoinbase :: "bool option"
  opt_MinedBlockInfos :: "(uint32 \<times> uint32 \<times> int) list"
  opt_Conflicting :: bool
  opt_Locked :: bool

text \<open>
  Functions of other packages that create.go calls and that are not part of these
  sources. They are parameters: every theorem below holds for all of them.
\<close>

record deps =
  GetUtxoHashes :: "Tx \<Rightarrow> Hash \<Rightarrow> go_error + Hash list"
  GetFeesAndUtxoHashes :: "Tx \<Rightarrow> uint32 \<Rightarrow> go_error + (uint64 \<times> Hash list)"
  ShouldStoreOutputAsUTXO :: "bool \<Rightarrow> Output \<Rightarrow> uint32 \<Rightarrow> bool"
  Tx_Size :: "Tx \<Rightarrow> int"
  Tx_ExtendedBytes :: "Tx \<Rightarrow> bytes"
  Output_Bytes :: "Output \<Rightarrow> bytes"
  Input_Bytes :: "Input \<Rightarrow> bytes"
  VarInt_Bytes :: "uint64 \<Rightarrow> bytes"
  NewKey :: "bytes \<Rightarrow> go_error + bytes"
  CalculateKeySourceInternal :: "Hash \<Rightarrow> uint32 \<Rightarrow> bytes"
  UTXOWrapper_Bytes :: "Hash \<Rightarrow> uint32 \<Rightarrow> bool \<Rightarrow> (uint32 \<times> Output) list \<Rightarrow> bytes"
  TxMetaDataFromTx :: "Tx \<Rightarrow> go_error + MetaData"
  TxIDChainHash :: "Tx \<Rightarrow> Hash"
  updateParentConflictingChildren :: "world \<Rightarrow> Tx \<Rightarrow> go_error + world"

text \<open>The settings and constants the store reads. \<open>utxoBatchSize\<close> is a Go \<open>int\<close>;
  \<open>CoinbaseMaturity\<close> is the \<open>uint16\<close> of the chain parameters;
  \<open>MaxTxSizeInStoreInBytes\<close> is a package variable declared outside these sources.\<close>

record Store =
  utxoBatchSize :: int
  CoinbaseMaturity :: "16 word"
  ExternalizeAllTransactions :: bool
  BlockHeightRetention :: uint32
  MaxTxSizeInStoreInBytes :: int

subsection \<open>splitIntoBatches\<close>

text \<open>
  Go's \<open>int\<close> is a 64-bit two's complement number on the platforms the node runs on:
  the result of \<open>+\<close> and \<open>-\<close> wraps around. \<open>utxoBatchSize\<close> and every length of a
  slice are values of that type, that is, numbers from \<open>-2^63\<close> up to \<open>2^63 - 1\<close>.
\<close>

definition go_int :: "int \<Rightarrow> int" where
  "go_int x = (x + 2 ^ 63) mod 2 ^ 64 - 2 ^ 63"

text \<open>
  The loop \<open>for start := 0; start < len(utxos); start += s.utxoBatchSize\<close> for a
  positive batch size. \<open>endRaw\<close> is the wrapped sum \<open>start + s.utxoBatchSize\<close>, the value
  of \<open>end\<close> before it is cut to the length, and also the next \<open>start\<close>. When the sum
  overflows, \<open>endRaw\<close> is negative, \<open>end\<close> stays below \<open>start\<close> and the slice expression
  \<open>utxos[start:end]\<close> panics; without overflow \<open>endRaw\<close> is above \<open>start\<close>.
\<close>

function splitLoop ::
  "nat \<Rightarrow> bytes option list \<Rightarrow> Bin list \<Rightarrow> nat \<Rightarrow> go_panic + Bin list list" where
  "splitLoop bs utxos commonBins start =
     (if 0 < bs \<and> start < length utxos then
        (let endRaw = go_int (int start + int bs)
         in if endRaw \<le> int start then Inl SliceBoundsOutOfRange
            else
              (let end = (if endRaw > int (length utxos) then length utxos else nat endRaw);
                   batchUtxos = take (end - start) (drop start utxos);
                   totalUtxos = length (filter (\<lambda>utxo. utxo \<noteq> None) batchUtxos);
                   batch = commonBins @
                           [(fields_Utxos, ListValue batchUtxos),
                            (fields_RecordUtxos, IntegerValue (int totalUtxos))]
               in case splitLoop bs utxos commonBins (nat endRaw) of
                    Inl p \<Rightarrow> Inl p
                  | Inr batches \<Rightarrow> Inr (batch # batches)))
      else Inr [])"
  by pat_completeness auto
termination
  by (relation "measure (\<lambda>(bs, utxos, commonBins, start). length utxos - start)") auto

declare splitLoop.simps [simp del]

text \<open>
  \<open>splitIntoBatches\<close>. The capacity \<open>numBatches\<close> is computed in \<open>int\<close>: the sum
  \<open>len(utxos) + s.utxoBatchSize - 1\<close> wraps, and the division truncates towards zero
  and panics on a zero batch size. \<open>make\<close> panics on a negative capacity (memory limits
  are not modelled). With a negative batch size and a non-empty slice the first
  \<open>utxos[start:end]\<close> has a negative \<open>end\<close> and panics.
\<close>

definition splitIntoBatches ::
  "Store \<Rightarrow> bytes option list \<Rightarrow> Bin list \<Rightarrow> go_panic + Bin list list" where
  "splitIntoBatches s utxos commonBins =
     (if utxoBatchSize s = 0 then Inl IntegerDivideByZero
      else if go_int (go_int (int (length utxos) + utxoBatchSize s - 1) sdiv utxoBatchSize s) < 0
        then Inl MakeSliceCapOutOfRange
      else if utxoBatchSize s < 0
        then (if utxos = [] then Inr [] else Inl SliceBoundsOutOfRange)
      else splitLoop (nat (utxoBatchSize s)) utxos commonBins 0)"

subsection \<open>GetBinsToStore\<close>

text \<open>\<open>safeconversion.Uint64ToInt\<close>: an error above \<open>math.MaxInt64\<close>.\<close>

definition Uint64ToInt :: "uint64 \<Rightarrow> go_error + int" where
  "Uint64ToInt v =
     (if uint v > 2 ^ 63 - 1 then Inl (ConversionError ''uint64 value exceeds max int'')
      else Inr (uint v))"

text \<open>The serialised extended input: \<open>input.Bytes(false)\<close>, the previous output's
  satoshis as eight little-endian bytes, and its script behind a varint length.\<close>

definition extendedInput :: "deps \<Rightarrow> Input \<Rightarrow> bytes" where
  "extendedInput d input =
     Input_Bytes d input @
     map (\<lambda>k. ucast (drop_bit (8 * k) (PreviousTxSatoshis input))) [0, 1, 2, 3, 4, 5, 6, 7] @
     (case PreviousTxScript input of
        None \<Rightarrow> VarInt_Bytes d 0
      | Some script \<Rightarrow> VarInt_Bytes d (of_nat (length script)) @ script)"

text \<open>The loop over \<open>tx.Outputs\<close> that fills \<open>outputs\<close> and \<open>utxos\<close>: entry \<open>i\<close> of
  \<open>utxos\<close> is \<open>utxoHashes[i]\<close> when output \<open>i\<close> is not \<open>nil\<close> and is to be stored as a
  UTXO, and stays \<open>nil\<close> otherwise. Indexing \<open>utxoHashes\<close> out of range panics.\<close>

definition storedAsUTXO :: "deps \<Rightarrow> bool \<Rightarrow> uint32 \<Rightarrow> Output option \<Rightarrow> bool" where
  "storedAsUTXO d isCoinbase blockHeight output =
     (case output of
        None \<Rightarrow> False
      | Some out \<Rightarrow> ShouldStoreOutputAsUTXO d isCoinbase out blockHeight)"

fun utxoEntries ::
  "deps \<Rightarrow> bool \<Rightarrow> uint32 \<Rightarrow> Hash list \<Rightarrow> nat \<Rightarrow> Output option list
     \<Rightarrow> go_panic + bytes option list" where
  "utxoEntries d isCoinbase blockHeight utxoHashes i [] = Inr []"
| "utxoEntries d isCoinbase blockHeight utxoHashes i (output # rest) =
     (if storedAsUTXO d isCoinbase blockHeight output \<and> \<not> i < length utxoHashes
      then Inl (IndexOutOfRange ''utxoHashes[i]'')
      else (case utxoEntries d isCoinbase blockHeight utxoHashes (Suc i) rest of
              Inl p \<Rightarrow> Inl p
            | Inr utxos \<Rightarrow>
                Inr ((if storedAsUTXO d isCoinbase blockHeight output
                      then Some (utxoHashes ! i) else None) # utxos)))"

text \<open>The slice literal \<open>commonBins\<close> of \<open>GetBinsToStore\<close> with the three appends that
  follow it: the bins every record of the transaction carries.\<close>

definition commonBinsOf ::
  "Store \<Rightarrow> Tx \<Rightarrow> uint32 \<Rightarrow> Hash \<Rightarrow> bool \<Rightarrow> bool \<Rightarrow> bool \<Rightarrow> int \<Rightarrow> int \<Rightarrow> int \<Rightarrow> Bin list" where
  "commonBinsOf s tx blockHeight txHash isCoinbase isConflicting isLocked feeInt sz extSz =
     [(fields_TxID, BytesValue txHash),
      (fields_Version, IntegerValue (uint (Version tx))),
      (fields_LockTime, IntegerValue (uint (LockTime tx))),
      (fields_Fee, IntegerValue feeInt),
      (fields_SizeInBytes, IntegerValue sz),
      (fields_ExtendedSize, IntegerValue extSz),
      (fields_SpentUtxos, IntegerValue 0),
      (fields_IsCoinbase, BoolValue isCoinbase)] @
     (if isCoinbase
      then [(fields_SpendingHeight,
             IntegerValue (uint (blockHeight + ucast (CoinbaseMaturity s))))]
      else []) @
     [(fields_Conflicting, BoolValue isConflicting),
      (fields_Locked, BoolValue isLocked)]"

definition GetBinsToStore ::
  "deps \<Rightarrow> Store \<Rightarrow> int \<Rightarrow> Tx \<Rightarrow> uint32 \<Rightarrow> uint32 list \<Rightarrow> uint32 list \<Rightarrow> int list \<Rightarrow> bool
     \<Rightarrow> Hash \<Rightarrow> bool \<Rightarrow> bool \<Rightarrow> bool \<Rightarrow> go_error + Bin list list" where
  "GetBinsToStore d s nowMilli tx blockHeight blockIDs blockHeights subtreeIdxs external
       txHash isCoinbase isConflicting isLocked =
     (if Outputs tx = [] then Inl (TeranodeError ERR_PROCESSING ''tx has no outputs'')
      else
        let size = (if Inputs tx = [] then 0 else Tx_Size d tx);
            extendedSize =
              (if Inputs tx = [] then 0 else int (length (Tx_ExtendedBytes d tx)));
            hashed = (if Inputs tx = []
                      then (case GetUtxoHashes d tx txHash of
                              Inl e \<Rightarrow> Inl e
                            | Inr hs \<Rightarrow> Inr (0, hs))
                      else GetFeesAndUtxoHashes d tx blockHeight)
        in case hashed of
             Inl e \<Rightarrow>
               Inl (TeranodeError ERR_PROCESSING ''failed to get fees and utxo hashes'')
           | Inr (fee, utxoHashes) \<Rightarrow>
               let inputs = (if \<not> external then map (extendedInput d) (Inputs tx) else []);
                   outputs = map (map_option (Output_Bytes d)) (Outputs tx)
               in case utxoEntries d isCoinbase blockHeight utxoHashes 0 (Outputs tx) of
                    Inl p \<Rightarrow> Inl (Panic p)
                  | Inr utxos \<Rightarrow>
                      (case Uint64ToInt fee of
                         Inl e \<Rightarrow> Inl e
                       | Inr feeInt \<Rightarrow>
                           let commonBins =
                                 commonBinsOf s tx blockHeight txHash isCoinbase isConflicting
                                   isLocked feeInt size extendedSize
                           in case splitIntoBatches s utxos commonBins of
                                Inl p \<Rightarrow> Inl (Panic p)
                              | Inr [] \<Rightarrow> Inl (Panic (IndexOutOfRange ''batches[0]''))
                              | Inr (first # extra) \<Rightarrow>
                                  let first1 = first @
                                        [(fields_TotalExtraRecs,
                                          IntegerValue (int (length (first # extra)) - 1)),
                                         (fields_BlockIDs, Uint32List blockIDs),
                                         (fields_BlockHeights, Uint32List blockHeights),
                                         (fields_SubtreeIdxs, IntList subtreeIdxs),
                                         (fields_TotalUtxos, IntegerValue (int (length utxos)))];
                                      first2 = first1 @
                                        (if blockIDs = [] \<and> blockHeights = [] \<and> subtreeIdxs = []
                                         then [(fields_UnminedSince,
                                                IntegerValue (uint blockHeight))]
                                         else []);
                                      first3 = first2 @
                                        [(fields_CreatedAt, IntegerValue nowMilli)];
                                      external' = (external \<or> length (first # extra) > 1);
                                      first4 = first3 @
                                        (if external'
                                         then [(fields_External, BoolValue True)]
                                         else [(fields_Inputs, ListValue (map Some inputs)),
                                               (fields_Outputs, ListValue outputs)])
                                  in Inr (first4 # extra)))"

subsection \<open>The two stores\<close>

text \<open>
  What the stores answer beyond what their state decides: a failure injected into a
  call (\<open>None\<close>: the call runs). \<open>blobFault i\<close> is for the blob write of batch item
  \<open>i\<close>, \<open>putFault i k\<close> for the \<open>PutBins\<close> of record \<open>k\<close> of item \<open>i\<close>,
  \<open>batchFault\<close> for the whole \<open>BatchOperate\<close> and \<open>recordFault i\<close> for its record
  \<open>i\<close>. \<open>unixMilli\<close> is the clock read for \<open>created_at\<close>.
\<close>

record responses =
  blobFault :: "nat \<Rightarrow> go_error option"
  putFault :: "nat \<Rightarrow> nat \<Rightarrow> go_error option"
  batchFault :: "go_error option"
  recordFault :: "nat \<Rightarrow> go_error option"
  unixMilli :: int

text \<open>
  Modelled from the spec: the blob store's \<open>Set\<close> (package \<open>stores/blob\<close>, not part of
  these sources). The spec gives \<open>put(tx_id, file_type, bytes) \<rightarrow> Ok | AlreadyExists |
  IoError\<close>: a failure leaves the store as it was, a blob that is present is reported
  as already existing and kept, and a new blob is stored.
\<close>

definition externalStore_Set ::
  "go_error option \<Rightarrow> world \<Rightarrow> bytes \<Rightarrow> FileType \<Rightarrow> bytes \<Rightarrow> go_error option \<times> world" where
  "externalStore_Set fault w key fileType data =
     (case fault of
        Some e \<Rightarrow> (Some e, w)
      | None \<Rightarrow>
          (case blobs w (key, fileType) of
             Some _ \<Rightarrow> (Some (TeranodeError ERR_BLOB_ALREADY_EXISTS ''blob already exists''), w)
           | None \<Rightarrow> (None, w\<lparr>blobs := (blobs w)((key, fileType) \<mapsto> data)\<rparr>)))"

text \<open>\<open>errors.Is(err, errors.ErrBlobAlreadyExists)\<close>.\<close>

definition isBlobAlreadyExists :: "go_error \<Rightarrow> bool" where
  "isBlobAlreadyExists e =
     (case e of TeranodeError kind _ \<Rightarrow> kind = ERR_BLOB_ALREADY_EXISTS | _ \<Rightarrow> False)"

text \<open>The Aerospike client's write of one record under the policy \<open>CREATE_ONLY\<close>
  (\<open>client.PutBins\<close>, and a \<open>BatchWrite\<close> of \<open>BatchOperate\<close>): a key that is present
  gives \<open>KEY_EXISTS_ERROR\<close> and the record stays as it is.\<close>

definition PutBins ::
  "go_error option \<Rightarrow> world \<Rightarrow> bytes \<Rightarrow> Bin list \<Rightarrow> go_error option \<times> world" where
  "PutBins fault w key bins =
     (case fault of
        Some e \<Rightarrow> (Some e, w)
      | None \<Rightarrow>
          (case records w key of
             Some _ \<Rightarrow> (Some (AerospikeError KEY_EXISTS_ERROR), w)
           | None \<Rightarrow> (None, w\<lparr>records := (records w)(key \<mapsto> bins)\<rparr>)))"

text \<open>\<open>safeconversion.IntToUint32\<close> as create.go uses it: on an index that does not fit
  the error is only logged and the zero result is used.\<close>

definition IntToUint32 :: "nat \<Rightarrow> uint32" where
  "IntToUint32 i = (if i < 2 ^ 32 then of_nat i else 0)"

subsection \<open>BatchStoreItem and the external write protocol\<close>

record BatchStoreItem =
  txHash :: Hash
  isCoinbase :: bool
  tx :: Tx
  blockHeight :: uint32
  blockIDs :: "uint32 list"
  blockHeights :: "uint32 list"
  subtreeIdxs :: "int list"
  lockTime :: uint32
  conflicting :: bool
  locked :: bool

text \<open>
  The loop \<open>for binIdx := len(binsToStore) - 1; binIdx >= 0; binIdx--\<close> of
  \<open>StoreTransactionExternally\<close> and \<open>StorePartialTransactionExternally\<close>, which differ
  in the text of the last error only. The argument counts the records still to write, so
  \<open>Suc binIdx\<close> is the turn of record \<open>binIdx\<close>. The result is the value sent on the
  item's \<open>done\<close> channel (\<open>None\<close> is \<open>nil\<close>), the stores after the loop, and the indices
  for which \<open>PutBins\<close> was called, in the order of the calls.
\<close>

fun putRecords ::
  "deps \<Rightarrow> (nat \<Rightarrow> go_error option) \<Rightarrow> string \<Rightarrow> Hash \<Rightarrow> Bin list list \<Rightarrow> nat \<Rightarrow> world
     \<Rightarrow> go_error option \<times> world \<times> nat list" where
  "putRecords d fault putErrText hash binsToStore 0 w = (None, w, [])"
| "putRecords d fault putErrText hash binsToStore (Suc binIdx) w =
     (case NewKey d (CalculateKeySourceInternal d hash (IntToUint32 binIdx)) of
        Inl err \<Rightarrow> (Some err, w, [])
      | Inr key \<Rightarrow>
          (case PutBins (fault binIdx) w key (binsToStore ! binIdx) of
             (None, w') \<Rightarrow>
               (case putRecords d fault putErrText hash binsToStore binIdx w' of
                  (sent, w'', calls) \<Rightarrow> (sent, w'', binIdx # calls))
           | (Some (AerospikeError KEY_EXISTS_ERROR), w') \<Rightarrow>
               (case putRecords d fault putErrText hash binsToStore binIdx w' of
                  (sent, w'', calls) \<Rightarrow> (sent, w'', binIdx # calls))
           | (Some _, w') \<Rightarrow>
               (Some (TeranodeError ERR_PROCESSING putErrText), w', [binIdx])))"

definition StoreTransactionExternally ::
  "deps \<Rightarrow> responses \<Rightarrow> nat \<Rightarrow> world \<Rightarrow> BatchStoreItem \<Rightarrow> Bin list list
     \<Rightarrow> go_error option \<times> world \<times> nat list" where
  "StoreTransactionExternally d r idx w bItem binsToStore =
     (case externalStore_Set (blobFault r idx) w (txHash bItem) FileTypeTx
             (Tx_ExtendedBytes d (tx bItem)) of
        (err, w') \<Rightarrow>
          if err \<noteq> None \<and> \<not> isBlobAlreadyExists (the err)
          then (Some (TeranodeError ERR_TX_EXISTS
                        ''[GetBinsToStore] error writing transaction to external store''),
                w', [])
          else putRecords d (putFault r idx)
                 ''[StoreTransactionExternally] could not put bins (extended mode) to store''
                 (txHash bItem) binsToStore (length binsToStore) w')"

text \<open>The outputs that are not \<open>nil\<close>, each with its index, as the \<open>UTXOWrapper\<close> of a
  partial transaction lists them.\<close>

definition wrapperUTXOs :: "Output option list \<Rightarrow> (uint32 \<times> Output) list" where
  "wrapperUTXOs outs =
     concat (map (\<lambda>(i, output). case output of None \<Rightarrow> [] | Some out \<Rightarrow> [(IntToUint32 i, out)])
                 (zip [0..<length outs] outs))"

definition StorePartialTransactionExternally ::
  "deps \<Rightarrow> responses \<Rightarrow> nat \<Rightarrow> world \<Rightarrow> BatchStoreItem \<Rightarrow> Bin list list
     \<Rightarrow> go_error option \<times> world \<times> nat list" where
  "StorePartialTransactionExternally d r idx w bItem binsToStore =
     (case externalStore_Set (blobFault r idx) w (txHash bItem) FileTypeOutputs
             (UTXOWrapper_Bytes d (txHash bItem) (blockHeight bItem) (isCoinbase bItem)
                (wrapperUTXOs (Outputs (tx bItem)))) of
        (err, w') \<Rightarrow>
          if err \<noteq> None \<and> \<not> isBlobAlreadyExists (the err)
          then (Some (TeranodeError ERR_TX_EXISTS
                        ''[StorePartialTransactionExternally] error writing output to external store''),
                w', [])
          else putRecords d (putFault r idx)
                 ''could not put partial bins (extended mode) to store''
                 (txHash bItem) binsToStore (length binsToStore) w')"

text \<open>Both \<open>go\<close> statements of \<open>sendStoreBatch\<close> choose between the two by the inputs.
  The goroutine is run at the place that starts it.\<close>

definition storeExternally ::
  "deps \<Rightarrow> responses \<Rightarrow> nat \<Rightarrow> world \<Rightarrow> BatchStoreItem \<Rightarrow> Bin list list
     \<Rightarrow> go_error option \<times> world \<times> nat list" where
  "storeExternally d r idx w bItem binsToStore =
     (if Inputs (tx bItem) = []
      then StorePartialTransactionExternally d r idx w bItem binsToStore
      else StoreTransactionExternally d r idx w bItem binsToStore)"

subsection \<open>sendStoreBatch and Create\<close>

text \<open>A record of the batch: a write of the item's bins under its key, or the
  placeholder \<open>aerospike.NewBatchRead(nil, placeholderKey, nil)\<close> that does nothing.\<close>

datatype BatchRecord = BatchWrite bytes "Bin list" | BatchReadNoop

text \<open>The size test at the head of the loop of \<open>sendStoreBatch\<close>.\<close>

definition extendedSizeOf :: "deps \<Rightarrow> Tx \<Rightarrow> int" where
  "extendedSizeOf d t =
     (if Inputs t = []
      then sum_list (map (\<lambda>output. case output of
                                      None \<Rightarrow> 0
                                    | Some out \<Rightarrow> int (length (Output_Bytes d out)))
                         (Outputs t))
      else int (length (Tx_ExtendedBytes d t)))"

definition externalOf :: "deps \<Rightarrow> Store \<Rightarrow> Tx \<Rightarrow> bool" where
  "externalOf d s t \<longleftrightarrow>
     ExternalizeAllTransactions s \<or> extendedSizeOf d t > MaxTxSizeInStoreInBytes s"

text \<open>The blob write of a single-record item that is stored externally
  (the branch \<open>else if external\<close>).\<close>

definition writeBlobInBatch ::
  "deps \<Rightarrow> responses \<Rightarrow> nat \<Rightarrow> world \<Rightarrow> BatchStoreItem \<Rightarrow> go_error option \<times> world" where
  "writeBlobInBatch d r idx w bItem =
     (if Inputs (tx bItem) = [] then
        (case externalStore_Set (blobFault r idx) w (txHash bItem) FileTypeOutputs
                (UTXOWrapper_Bytes d (txHash bItem) (blockHeight bItem) (isCoinbase bItem)
                   (wrapperUTXOs (Outputs (tx bItem)))) of
           (err, w') \<Rightarrow>
             if err \<noteq> None \<and> \<not> isBlobAlreadyExists (the err)
             then (Some (TeranodeError ERR_TX_EXISTS
                           ''error writing outputs to external store''), w')
             else (None, w'))
      else
        (case externalStore_Set (blobFault r idx) w (txHash bItem) FileTypeTx
                (Tx_ExtendedBytes d (tx bItem)) of
           (err, w') \<Rightarrow>
             if err \<noteq> None \<and> \<not> isBlobAlreadyExists (the err)
             then (Some (TeranodeError ERR_TX_EXISTS
                           ''[sendStoreBatch] error batch writing transaction to external store''),
                   w')
             else (None, w')))"

text \<open>
  One turn of the first loop of \<open>sendStoreBatch\<close>: the batch record of the item, the
  values sent on its \<open>done\<close> channel in this turn, and the stores after it. A panic of
  \<open>GetBinsToStore\<close> is not an error value and ends the run.
\<close>

definition prepareItem ::
  "deps \<Rightarrow> Store \<Rightarrow> responses \<Rightarrow> nat \<Rightarrow> world \<Rightarrow> BatchStoreItem
     \<Rightarrow> go_panic + (BatchRecord \<times> go_error option list \<times> world)" where
  "prepareItem d s r idx w bItem =
     (case NewKey d (txHash bItem) of
        Inl err \<Rightarrow> Inr (BatchReadNoop, [Some err], w)
      | Inr key \<Rightarrow>
          (let external = externalOf d s (tx bItem)
           in case GetBinsToStore d s (unixMilli r) (tx bItem) (blockHeight bItem)
                     (blockIDs bItem) (blockHeights bItem) (subtreeIdxs bItem) external
                     (txHash bItem) (isCoinbase bItem) (conflicting bItem) (locked bItem) of
                Inl (Panic p) \<Rightarrow> Inl p
              | Inl err \<Rightarrow>
                  Inr (BatchReadNoop,
                       [Some (TeranodeError ERR_PROCESSING ''could not get bins to store'')], w)
              | Inr binsToStore \<Rightarrow>
                  if length binsToStore > 1 then
                    (case storeExternally d r idx w bItem binsToStore of
                       (sent, w', calls) \<Rightarrow> Inr (BatchReadNoop, [sent], w'))
                  else
                    (case (if external then writeBlobInBatch d r idx w bItem else (None, w)) of
                       (Some err, w') \<Rightarrow> Inr (BatchReadNoop, [Some err], w')
                     | (None, w') \<Rightarrow>
                         (case binsToStore of
                            [] \<Rightarrow> Inl (IndexOutOfRange ''binsToStore[0]'')
                          | bins # _ \<Rightarrow>
                              Inr (BatchWrite key
                                     (bins @
                                      (if conflicting bItem
                                       then [(fields_DeleteAtHeight,
                                              IntegerValue
                                                (uint (blockHeight bItem + BlockHeightRetention s)))]
                                       else [])),
                                   [], w')))))"

fun prepareBatch ::
  "deps \<Rightarrow> Store \<Rightarrow> responses \<Rightarrow> nat \<Rightarrow> world \<Rightarrow> BatchStoreItem list
     \<Rightarrow> go_panic + (BatchRecord list \<times> go_error option list list \<times> world)" where
  "prepareBatch d s r idx w [] = Inr ([], [], w)"
| "prepareBatch d s r idx w (bItem # rest) =
     (case prepareItem d s r idx w bItem of
        Inl p \<Rightarrow> Inl p
      | Inr (batchRecord, sent, w') \<Rightarrow>
          (case prepareBatch d s r (Suc idx) w' rest of
             Inl p \<Rightarrow> Inl p
           | Inr (batchRecords, sents, w'') \<Rightarrow>
               Inr (batchRecord # batchRecords, sent # sents, w'')))"

text \<open>
  \<open>client.BatchOperate\<close>: the records are run in order, each write under
  \<open>CREATE_ONLY\<close>; a placeholder reads nothing and reports \<open>KEY_NOT_FOUND_ERROR\<close>, the
  code the second loop of \<open>sendStoreBatch\<close> takes for it. When the call as a whole
  fails no record is run and no record error is set.
\<close>

fun runBatchRecords ::
  "(nat \<Rightarrow> go_error option) \<Rightarrow> nat \<Rightarrow> world \<Rightarrow> BatchRecord list
     \<Rightarrow> go_error option list \<times> world" where
  "runBatchRecords fault idx w [] = ([], w)"
| "runBatchRecords fault idx w (BatchReadNoop # rest) =
     (case runBatchRecords fault (Suc idx) w rest of
        (errs, w') \<Rightarrow>
          ((case fault idx of
              Some e \<Rightarrow> Some e
            | None \<Rightarrow> Some (AerospikeError KEY_NOT_FOUND_ERROR)) # errs, w'))"
| "runBatchRecords fault idx w (BatchWrite key bins # rest) =
     (case PutBins (fault idx) w key bins of
        (err, w') \<Rightarrow>
          (case runBatchRecords fault (Suc idx) w' rest of
             (errs, w'') \<Rightarrow> (err # errs, w'')))"

definition BatchOperate ::
  "responses \<Rightarrow> world \<Rightarrow> BatchRecord list \<Rightarrow> go_error option \<times> go_error option list \<times> world" where
  "BatchOperate r w batchRecords =
     (case batchFault r of
        Some e \<Rightarrow> (Some e, replicate (length batchRecords) None, w)
      | None \<Rightarrow>
          (case runBatchRecords (recordFault r) 0 w batchRecords of
             (errs, w') \<Rightarrow> (None, errs, w')))"

text \<open>One turn of the second loop of \<open>sendStoreBatch\<close>, on the error of the item's
  batch record.\<close>

definition afterBatchItem ::
  "deps \<Rightarrow> Store \<Rightarrow> responses \<Rightarrow> nat \<Rightarrow> world \<Rightarrow> BatchStoreItem \<Rightarrow> go_error option
     \<Rightarrow> go_panic + (go_error option list \<times> world)" where
  "afterBatchItem d s r idx w bItem err =
     (case err of
        None \<Rightarrow>
          Inr (if int (length (Outputs (tx bItem))) \<le> utxoBatchSize s then [None] else [], w)
      | Some (AerospikeError KEY_EXISTS_ERROR) \<Rightarrow>
          Inr ([Some (TeranodeError ERR_TX_EXISTS
                        ''[sendStoreBatch-2] already exists in store'')], w)
      | Some (AerospikeError RECORD_TOO_BIG) \<Rightarrow>
          (case GetBinsToStore d s (unixMilli r) (tx bItem) (blockHeight bItem)
                  (blockIDs bItem) (blockHeights bItem) (subtreeIdxs bItem) True
                  (txHash bItem) (isCoinbase bItem) (conflicting bItem) (locked bItem) of
             Inl (Panic p) \<Rightarrow> Inl p
           | Inl e \<Rightarrow>
               Inr ([Some (TeranodeError ERR_PROCESSING ''could not get bins to store'')], w)
           | Inr binsToStore \<Rightarrow>
               (case storeExternally d r idx w bItem binsToStore of
                  (sent, w', calls) \<Rightarrow> Inr ([sent], w')))
      | Some (AerospikeError KEY_NOT_FOUND_ERROR) \<Rightarrow> Inr ([], w)
      | Some (AerospikeError (OtherResultCode c)) \<Rightarrow>
          Inr ([Some (TeranodeError ERR_STORAGE_ERROR
                        ''error in aerospike store batch record for tx (will retry)'')], w)
      | Some _ \<Rightarrow> Inr ([], w))"

fun afterBatch ::
  "deps \<Rightarrow> Store \<Rightarrow> responses \<Rightarrow> nat \<Rightarrow> world \<Rightarrow> BatchStoreItem list \<Rightarrow> go_error option list
     \<Rightarrow> go_panic + (go_error option list list \<times> world)" where
  "afterBatch d s r idx w (bItem # rest) (err # errs) =
     (case afterBatchItem d s r idx w bItem err of
        Inl p \<Rightarrow> Inl p
      | Inr (sent, w') \<Rightarrow>
          (case afterBatch d s r (Suc idx) w' rest errs of
             Inl p \<Rightarrow> Inl p
           | Inr (sents, w'') \<Rightarrow> Inr (sent # sents, w'')))"
| "afterBatch d s r idx w _ _ = Inr ([], w)"

text \<open>
  \<open>sendStoreBatch\<close>: for each item of the batch the values sent on its \<open>done\<close> channel,
  in the order of the sends, and the stores afterwards.
\<close>

definition sendStoreBatch ::
  "deps \<Rightarrow> Store \<Rightarrow> responses \<Rightarrow> world \<Rightarrow> BatchStoreItem list
     \<Rightarrow> go_panic + (go_error option list list \<times> world)" where
  "sendStoreBatch d s r w batch =
     (case prepareBatch d s r 0 w batch of
        Inl p \<Rightarrow> Inl p
      | Inr (batchRecords, sents, w1) \<Rightarrow>
          (case BatchOperate r w1 batchRecords of
             (Some (AerospikeError KEY_EXISTS_ERROR), recErrs, w2) \<Rightarrow>
               Inr (map (\<lambda>sent. sent @
                           [Some (TeranodeError ERR_TX_EXISTS
                                    ''[sendStoreBatch-1] already exists in store'')]) sents,
                    w2)
           | (err, recErrs, w2) \<Rightarrow>
               (case afterBatch d s r 0 w2 batch recErrs of
                  Inl p \<Rightarrow> Inl p
                | Inr (sents2, w3) \<Rightarrow>
                    Inr (map (\<lambda>(sent, sent2).
                                sent @ (case err of None \<Rightarrow> [] | Some e \<Rightarrow> [Some e]) @ sent2)
                             (zip sents sents2),
                         w3))))"

text \<open>
  \<open>Create\<close>, for an item that is sent as a batch of its own (the batcher disabled, or a
  batch of one). It returns the first value received on \<open>done\<close>; with no value sent it
  blocks.
\<close>

datatype create_result =
    Returned "go_error + MetaData"
  | Blocked
  | Crashed go_panic

definition Create ::
  "deps \<Rightarrow> Store \<Rightarrow> responses \<Rightarrow> world \<Rightarrow> Tx \<Rightarrow> uint32 \<Rightarrow> CreateOptions
     \<Rightarrow> create_result \<times> world" where
  "Create d s r w t height opts =
     (case TxMetaDataFromTx d t of
        Inl err \<Rightarrow>
          (Returned (Inl (TeranodeError ERR_PROCESSING ''failed to get tx meta data'')), w)
      | Inr txMeta0 \<Rightarrow>
          (let txMeta = txMeta0\<lparr>meta_Conflicting := opt_Conflicting opts,
                                 meta_Locked := opt_Locked opts\<rparr>
           in case (if meta_Conflicting txMeta
                    then updateParentConflictingChildren d w t else Inr w) of
                Inl err \<Rightarrow>
                  (Returned (Inl (TeranodeError ERR_PROCESSING
                                    ''failed to update parent conflicting children'')), w)
              | Inr w1 \<Rightarrow>
                  (let item =
                         \<lparr>txHash = (case opt_TxID opts of
                                      Some h \<Rightarrow> h
                                    | None \<Rightarrow> TxIDChainHash d t),
                          isCoinbase = (case opt_IsCoinbase opts of
                                          Some c \<Rightarrow> c
                                        | None \<Rightarrow> meta_IsCoinbase txMeta),
                          tx = t,
                          blockHeight = height,
                          blockIDs = map fst (opt_MinedBlockInfos opts),
                          blockHeights = map (\<lambda>b. fst (snd b)) (opt_MinedBlockInfos opts),
                          subtreeIdxs = map (\<lambda>b. snd (snd b)) (opt_MinedBlockInfos opts),
                          lockTime = LockTime t,
                          conflicting = opt_Conflicting opts,
                          locked = opt_Locked opts\<rparr>
                   in case sendStoreBatch d s r w1 [item] of
                        Inl p \<Rightarrow> (Crashed p, w1)
                      | Inr (sents, w2) \<Rightarrow>
                          (case concat sents of
                             [] \<Rightarrow> (Blocked, w2)
                           | None # _ \<Rightarrow> (Returned (Inr txMeta), w2)
                           | Some err # _ \<Rightarrow> (Returned (Inl err), w2)))))"

subsection \<open>Names for parts of the records\<close>

text \<open>The bins \<open>GetBinsToStore\<close> appends to the first record before the external
  flag or the inputs and outputs; the bins of one record as \<open>splitIntoBatches\<close> builds
  it from its slice of the UTXOs; and the fee and UTXO hashes as \<open>GetBinsToStore\<close>
  obtains them. They name terms of the definitions above for the proofs below.\<close>

definition firstRecordBins ::
  "int \<Rightarrow> uint32 \<Rightarrow> uint32 list \<Rightarrow> uint32 list \<Rightarrow> int list \<Rightarrow> nat \<Rightarrow> nat \<Rightarrow> Bin list" where
  "firstRecordBins nowMilli bh ids hts idxs nBatches nUtxos =
     [(fields_TotalExtraRecs, IntegerValue (int nBatches - 1)),
      (fields_BlockIDs, Uint32List ids),
      (fields_BlockHeights, Uint32List hts),
      (fields_SubtreeIdxs, IntList idxs),
      (fields_TotalUtxos, IntegerValue (int nUtxos))] @
     (if ids = [] \<and> hts = [] \<and> idxs = []
      then [(fields_UnminedSince, IntegerValue (uint bh))] else []) @
     [(fields_CreatedAt, IntegerValue nowMilli)]"

definition shardOf :: "Bin list \<Rightarrow> bytes option list \<Rightarrow> Bin list" where
  "shardOf commonBins chunk =
     commonBins @
     [(fields_Utxos, ListValue chunk),
      (fields_RecordUtxos, IntegerValue (int (length (filter (\<lambda>utxo. utxo \<noteq> None) chunk))))]"

definition feesAndHashes :: "deps \<Rightarrow> Tx \<Rightarrow> Hash \<Rightarrow> uint32 \<Rightarrow> go_error + (uint64 \<times> Hash list)" where
  "feesAndHashes d t h bh =
     (if Inputs t = []
      then (case GetUtxoHashes d t h of Inl e \<Rightarrow> Inl e | Inr hs \<Rightarrow> Inr (0, hs))
      else GetFeesAndUtxoHashes d t bh)"

text \<open>The key of record \<open>binIdx\<close> of a transaction, as the loop of the external write
  protocol computes it.\<close>

definition recordKey :: "deps \<Rightarrow> Hash \<Rightarrow> nat \<Rightarrow> go_error + bytes" where
  "recordKey d h binIdx = NewKey d (CalculateKeySourceInternal d h (IntToUint32 binIdx))"

text \<open>What \<open>Create\<close> does before it sends the item: the metadata it returns, the update of
  the parents of a conflicting transaction, and the item it builds.\<close>

definition metaOf :: "MetaData \<Rightarrow> CreateOptions \<Rightarrow> MetaData" where
  "metaOf txMeta0 opts =
     txMeta0\<lparr>meta_Conflicting := opt_Conflicting opts, meta_Locked := opt_Locked opts\<rparr>"

definition parentsUpdated :: "deps \<Rightarrow> world \<Rightarrow> Tx \<Rightarrow> CreateOptions \<Rightarrow> go_error + world" where
  "parentsUpdated d w t opts =
     (if opt_Conflicting opts then updateParentConflictingChildren d w t else Inr w)"

definition itemOf :: "deps \<Rightarrow> Tx \<Rightarrow> uint32 \<Rightarrow> CreateOptions \<Rightarrow> MetaData \<Rightarrow> BatchStoreItem" where
  "itemOf d t height opts txMeta =
     \<lparr>txHash = (case opt_TxID opts of Some h \<Rightarrow> h | None \<Rightarrow> TxIDChainHash d t),
      isCoinbase = (case opt_IsCoinbase opts of Some c \<Rightarrow> c | None \<Rightarrow> meta_IsCoinbase txMeta),
      tx = t,
      blockHeight = height,
      blockIDs = map fst (opt_MinedBlockInfos opts),
      blockHeights = map (\<lambda>b. fst (snd b)) (opt_MinedBlockInfos opts),
      subtreeIdxs = map (\<lambda>b. snd (snd b)) (opt_MinedBlockInfos opts),
      lockTime = LockTime t,
      conflicting = opt_Conflicting opts,
      locked = opt_Locked opts\<rparr>"

text \<open>The bins the first loop of \<open>sendStoreBatch\<close> computes for an item, the bin it adds
  to the single record of a conflicting transaction, and the blob an item is written to
  (its file type and its bytes).\<close>

definition itemBins :: "deps \<Rightarrow> Store \<Rightarrow> responses \<Rightarrow> BatchStoreItem \<Rightarrow> go_error + Bin list list" where
  "itemBins d s r bItem =
     GetBinsToStore d s (unixMilli r) (tx bItem) (blockHeight bItem) (blockIDs bItem)
       (blockHeights bItem) (subtreeIdxs bItem) (externalOf d s (tx bItem)) (txHash bItem)
       (isCoinbase bItem) (conflicting bItem) (locked bItem)"

definition deleteAtHeightBins :: "Store \<Rightarrow> BatchStoreItem \<Rightarrow> Bin list" where
  "deleteAtHeightBins s bItem =
     (if conflicting bItem
      then [(fields_DeleteAtHeight,
             IntegerValue (uint (blockHeight bItem + BlockHeightRetention s)))]
      else [])"

definition blobOf :: "deps \<Rightarrow> BatchStoreItem \<Rightarrow> FileType \<times> bytes" where
  "blobOf d bItem =
     (if Inputs (tx bItem) = []
      then (FileTypeOutputs,
            UTXOWrapper_Bytes d (txHash bItem) (blockHeight bItem) (isCoinbase bItem)
              (wrapperUTXOs (Outputs (tx bItem))))
      else (FileTypeTx, Tx_ExtendedBytes d (tx bItem)))"

text \<open>
  The records of a transaction as the store holds them: for a transaction of one record,
  the record under the key of its hash, where \<open>sendStoreBatch\<close> writes it; for a
  transaction of \<open>n > 1\<close> records, the records under the \<open>n\<close> keys of the external write
  protocol. \<open>None\<close> stands for a record that is not there.
\<close>

definition storedRecords :: "deps \<Rightarrow> world \<Rightarrow> Hash \<Rightarrow> nat \<Rightarrow> Bin list option list" where
  "storedRecords d w h n =
     (if 1 < n
      then map (\<lambda>i. case recordKey d h i of Inl e \<Rightarrow> None | Inr key \<Rightarrow> records w key) [0..<n]
      else [case NewKey d h of Inl e \<Rightarrow> None | Inr key \<Rightarrow> records w key])"

subsection \<open>Reading the records\<close>

text \<open>The value of one bin in each record; the \<open>total_utxos\<close> bin of the first record; and
  the sum of the \<open>record_utxos\<close> bins of all records (\<open>None\<close> when a record has none).\<close>

definition bin_values :: "FieldName \<Rightarrow> Bin list list \<Rightarrow> BinValue option list" where
  "bin_values name batches = map (\<lambda>bins. bin_value bins name) batches"

definition TotalUtxos_of :: "Bin list list \<Rightarrow> BinValue option" where
  "TotalUtxos_of batches =
     (case batches of [] \<Rightarrow> None | first # _ \<Rightarrow> bin_value first fields_TotalUtxos)"

fun sum_RecordUtxos :: "Bin list list \<Rightarrow> int option" where
  "sum_RecordUtxos [] = Some 0"
| "sum_RecordUtxos (bins # rest) =
     (case bin_value bins fields_RecordUtxos of
        Some (IntegerValue n) \<Rightarrow> map_option (\<lambda>m. n + m) (sum_RecordUtxos rest)
      | _ \<Rightarrow> None)"

subsection \<open>Concrete inputs\<close>

text \<open>Stand-ins for the outside functions, a store with batch size 2 and small
  transactions, on which the theorems below are evaluated.\<close>

definition example_deps :: deps where
  "example_deps =
     \<lparr>GetUtxoHashes = (\<lambda>t h. Inr (map (\<lambda>output. h) (Outputs t))),
      GetFeesAndUtxoHashes = (\<lambda>t bh. Inr (1, map (\<lambda>output. [7]) (Outputs t))),
      ShouldStoreOutputAsUTXO = (\<lambda>cb out bh. cb \<or> Satoshis out \<noteq> 0),
      Tx_Size = (\<lambda>t. 10),
      Tx_ExtendedBytes = (\<lambda>t. [1, 2, 3]),
      Output_Bytes = LockingScript,
      Input_Bytes = UnlockingScript,
      VarInt_Bytes = (\<lambda>v. [ucast v]),
      NewKey = Inr,
      CalculateKeySourceInternal = (\<lambda>h i. h @ [ucast i]),
      UTXOWrapper_Bytes = (\<lambda>h height cb utxos. h),
      TxMetaDataFromTx =
        (\<lambda>t. Inr \<lparr>meta_IsCoinbase = False, meta_Conflicting = False, meta_Locked = False\<rparr>),
      TxIDChainHash = (\<lambda>t. [ucast (Version t)]),
      updateParentConflictingChildren = (\<lambda>w t. Inr w)\<rparr>"

definition example_store :: Store where
  "example_store =
     \<lparr>utxoBatchSize = 2, CoinbaseMaturity = 100, ExternalizeAllTransactions = False,
      BlockHeightRetention = 288, MaxTxSizeInStoreInBytes = 1048576\<rparr>"

definition example_out :: Output where
  "example_out = \<lparr>Satoshis = 1000, LockingScript = [118, 169]\<rparr>"

definition example_in :: Input where
  "example_in =
     \<lparr>PreviousTxID = [1], PreviousTxOutIndex = 0, UnlockingScript = [71],
      SequenceNumber = 0, PreviousTxSatoshis = 2000, PreviousTxScript = None\<rparr>"

definition example_tx :: "Output option list \<Rightarrow> Tx" where
  "example_tx outs = \<lparr>Version = 1, LockTime = 0, Inputs = [example_in], Outputs = outs\<rparr>"

definition example_partial_tx :: "Output option list \<Rightarrow> Tx" where
  "example_partial_tx outs = \<lparr>Version = 1, LockTime = 0, Inputs = [], Outputs = outs\<rparr>"

definition no_faults :: responses where
  "no_faults =
     \<lparr>blobFault = (\<lambda>i. None), putFault = (\<lambda>i k. None), batchFault = None,
      recordFault = (\<lambda>i. None), unixMilli = 1700000000000\<rparr>"

definition empty_world :: world where
  "empty_world = \<lparr>records = Map.empty, blobs = Map.empty\<rparr>"

definition default_options :: CreateOptions where
  "default_options =
     \<lparr>opt_TxID = None, opt_IsCoinbase = None, opt_MinedBlockInfos = [],
      opt_Conflicting = False, opt_Locked = False\<rparr>"

definition example_item :: "Tx \<Rightarrow> BatchStoreItem" where
  "example_item t =
     \<lparr>txHash = [9], isCoinbase = False, tx = t, blockHeight = 100, blockIDs = [],
      blockHeights = [], subtreeIdxs = [], lockTime = 0, conflicting = False, locked = False\<rparr>"

section \<open>Properties of the reputation engine\<close>

lemma apply_reputation_op_score_range:
  assumes "apply_reputation_op op pm = Inr pm'"
    and "ReputationScore pm \<in> \<int>"
    and "- 1 \<le> ReputationScore pm" and "ReputationScore pm \<le> 100"
  shows "ReputationScore pm' \<in> \<int> \<and> - 1 \<le> ReputationScore pm' \<and> ReputationScore pm' \<le> 100"
proof -
  from assms(2) obtain k :: int where k: "ReputationScore pm = of_int k"
    by (auto elim: Ints_cases)
  show ?thesis
  proof (cases op)
    case (CallRecordSuccess now)
    with assms k show ?thesis
      by (auto simp: RecordSuccess_def Let_def)
  next
    case (CallRecordFailure now)
    with assms k show ?thesis
      by (auto simp: RecordFailure_def Let_def)
  next
    case CallRecordMaliciousAttempt
    with assms show ?thesis
      by (auto simp: RecordMaliciousAttempt_def)
  next
    case (CallUpdateReputation success rt)
    with assms k show ?thesis
      by (auto simp: UpdateReputation_def Let_def split: if_splits sum.splits)
  qed
qed

text \<open>What the operations do keep: from an integer score in \<open>[-1, 100]\<close> every sequence
  of calls ends with an integer score in \<open>[-1, 100]\<close>. The lower end is \<open>-1\<close>, not \<open>0\<close>.\<close>

lemma run_ops_score_range:
  "run_reputation_ops ops pm = Inr pm' \<Longrightarrow> ReputationScore pm \<in> \<int> \<Longrightarrow>
     - 1 \<le> ReputationScore pm \<Longrightarrow> ReputationScore pm \<le> 100 \<Longrightarrow>
     ReputationScore pm' \<in> \<int> \<and> - 1 \<le> ReputationScore pm' \<and> ReputationScore pm' \<le> 100"
proof (induction ops arbitrary: pm)
  case Nil
  then show ?case by simp
next
  case (Cons op ops)
  from Cons.prems(1) obtain pm1 where
    step: "apply_reputation_op op pm = Inr pm1" and rest: "run_reputation_ops ops pm1 = Inr pm'"
    by (auto split: sum.splits)
  from apply_reputation_op_score_range [OF step Cons.prems(2-4)]
  show ?case using Cons.IH [OF rest] by blast
qed

text \<open>
  Claim C1 (the score stays within \<open>[0, 100]\<close> under every sequence of the four operations,
  from \<open>50\<close>) does not hold of the code. A peer registered with score \<open>50\<close> receives
  one \<open>UpdateReputation(true, 0)\<close>, which makes the score \<open>51\<close>, and then 26 calls of
  \<open>RecordFailure\<close>: the guard \<open>ReputationScore > 0\<close> lets the 26th call subtract 2
  from the score \<open>1\<close>, and the score ends at \<open>-1\<close>.
\<close>

theorem reputation_score_below_zero:
  "map_sum id ReputationScore
     (run_reputation_ops (CallUpdateReputation True 0 # replicate 26 (CallRecordFailure 0))
        (fst (GetOrCreatePeerMetrics (Some NewCatchupMetrics) ''peer''))) = Inr (- 1)"
  by (simp add: eval_nat_numeral GetOrCreatePeerMetrics_def NewCatchupMetrics_def
      zero_PeerCatchupMetrics_def UpdateReputation_def RecordFailure_def Let_def)

text \<open>
  Claim C10: on a \<open>nil\<close> registry \<open>GetOrCreatePeerMetrics\<close> returns the zero-valued
  record, whose \<open>ReputationScore\<close> is \<open>0\<close>, and there is no registry after the call that
  could hold it; on a registry that does not know the peer it returns a record with the
  peer's id and \<open>ReputationScore\<close> \<open>50\<close>, and the registry then maps the peer to that
  record.
\<close>

theorem GetOrCreatePeerMetrics_nil_and_first:
  "GetOrCreatePeerMetrics None peerID = (zero_PeerCatchupMetrics, None) \<and>
   ReputationScore (fst (GetOrCreatePeerMetrics None peerID)) = 0 \<and>
   (PeerMetrics reg peerID = None \<longrightarrow>
      ReputationScore (fst (GetOrCreatePeerMetrics (Some reg) peerID)) = 50 \<and>
      PeerID (fst (GetOrCreatePeerMetrics (Some reg) peerID)) = peerID \<and>
      map_option (\<lambda>r. PeerMetrics r peerID) (snd (GetOrCreatePeerMetrics (Some reg) peerID))
        = Some (Some (fst (GetOrCreatePeerMetrics (Some reg) peerID))))"
  by (simp add: GetOrCreatePeerMetrics_def zero_PeerCatchupMetrics_def Let_def)

theorem GetOrCreatePeerMetrics_nil_and_first_witness:
  "PeerMetrics NewCatchupMetrics ''peer-1'' = None \<and>
   GetOrCreatePeerMetrics None ''peer-1'' = (zero_PeerCatchupMetrics, None) \<and>
   ReputationScore (fst (GetOrCreatePeerMetrics (Some NewCatchupMetrics) ''peer-1'')) = 50 \<and>
   map_option PeerMetrics (snd (GetOrCreatePeerMetrics (Some NewCatchupMetrics) ''peer-1''))
     = Some ([''peer-1'' \<mapsto> fst (GetOrCreatePeerMetrics (Some NewCatchupMetrics) ''peer-1'')])"
  using GetOrCreatePeerMetrics_nil_and_first [of "''peer-1''" NewCatchupMetrics]
  by (simp add: NewCatchupMetrics_def GetOrCreatePeerMetrics_def Let_def)

section \<open>Properties of the creation path\<close>

subsection \<open>Records and their UTXO slices\<close>

lemma go_int_id: "- (2 ^ 63) \<le> x \<Longrightarrow> x < 2 ^ 63 \<Longrightarrow> go_int x = x"
  by (simp add: go_int_def)

lemma go_int_le: "0 \<le> x \<Longrightarrow> go_int x \<le> x"
  unfolding go_int_def using zmod_le_nonneg_dividend [of "x + 2 ^ 63" "2 ^ 64"] by simp

lemma utxoEntries_Inr:
  "utxoEntries d cb bh hs i outs = Inr utxos \<Longrightarrow>
     length utxos = length outs \<and>
     map (\<lambda>u. u \<noteq> None) utxos = map (storedAsUTXO d cb bh) outs"
  by (induction outs arbitrary: i utxos) (auto split: if_splits sum.splits)

lemma utxoEntries_nth:
  "utxoEntries d cb bh hs i outs = Inr utxos \<Longrightarrow> k < length outs \<Longrightarrow>
     utxos ! k = (if storedAsUTXO d cb bh (outs ! k) then Some (hs ! (i + k)) else None)"
proof (induction outs arbitrary: i utxos k)
  case Nil
  then show ?case by simp
next
  case (Cons a outs)
  from Cons.prems(1) obtain rest where
    r: "utxoEntries d cb bh hs (Suc i) outs = Inr rest"
    and u: "utxos = (if storedAsUTXO d cb bh a then Some (hs ! i) else None) # rest"
    by (auto split: if_splits sum.splits)
  show ?case
  proof (cases k)
    case 0
    with u show ?thesis by simp
  next
    case (Suc j)
    with Cons.prems(2) have "j < length outs" by simp
    from Cons.IH [OF r this] u Suc show ?thesis by simp
  qed
qed

lemma count_via_map:
  "map P xs = map Q ys \<Longrightarrow> length (filter P xs) = length (filter Q ys)"
proof (induction xs arbitrary: ys)
  case Nil
  then show ?case by simp
next
  case (Cons x xs)
  then obtain y ys' where "ys = y # ys'" by (cases ys) auto
  with Cons show ?case by auto
qed

lemma utxoEntries_succeeds:
  "i + length outs \<le> length hs \<Longrightarrow> \<exists>utxos. utxoEntries d cb bh hs i outs = Inr utxos"
proof (induction outs arbitrary: i)
  case Nil
  then show ?case by simp
next
  case (Cons a outs)
  from Cons.prems have "Suc i + length outs \<le> length hs" by simp
  from Cons.IH [OF this] obtain utxos where
    "utxoEntries d cb bh hs (Suc i) outs = Inr utxos" by blast
  moreover from Cons.prems have "i < length hs" by simp
  ultimately show ?case by simp
qed


text \<open>One turn of the loop.\<close>

lemma splitLoop_done:
  "\<not> (0 < bs \<and> start < length utxos) \<Longrightarrow> splitLoop bs utxos cb start = Inr []"
  by (subst splitLoop.simps) auto

lemma splitLoop_overflow:
  "0 < bs \<Longrightarrow> start < length utxos \<Longrightarrow> go_int (int start + int bs) \<le> int start \<Longrightarrow>
     splitLoop bs utxos cb start = Inl SliceBoundsOutOfRange"
  by (subst splitLoop.simps) (simp add: Let_def)

lemma splitLoop_step:
  "0 < bs \<Longrightarrow> start < length utxos \<Longrightarrow> \<not> go_int (int start + int bs) \<le> int start \<Longrightarrow>
     splitLoop bs utxos cb start =
       (case splitLoop bs utxos cb (nat (go_int (int start + int bs))) of
          Inl p \<Rightarrow> Inl p
        | Inr batches \<Rightarrow>
            Inr (shardOf cb
                   (take ((if go_int (int start + int bs) > int (length utxos)
                           then length utxos else nat (go_int (int start + int bs))) - start)
                      (drop start utxos)) # batches))"
  unfolding shardOf_def
  by (subst splitLoop.simps) (simp add: Let_def split: sum.splits)


lemma splitLoop_chunks:
  "splitLoop bs utxos cb start = Inr batches \<Longrightarrow>
   \<exists>chunks. batches = map (shardOf cb) chunks \<and>
            concat chunks = (if 0 < bs then drop start utxos else []) \<and>
            (0 < bs \<and> start < length utxos \<longrightarrow> chunks \<noteq> []) \<and>
            (\<forall>c\<in>set chunks. length c \<le> bs)"
proof (induction bs utxos cb start arbitrary: batches rule: splitLoop.induct)
  case (1 bs utxos cb start)
  show ?case
  proof (cases "0 < bs \<and> start < length utxos")
    case False
    with "1.prems" have "batches = []" by (simp add: splitLoop_done)
    with False show ?thesis by auto
  next
    case True
    let ?e = "go_int (int start + int bs)"
    have no: "\<not> ?e \<le> int start"
      using True "1.prems" by (auto simp: splitLoop_overflow)
    define chunk where
      "chunk = take ((if ?e > int (length utxos) then length utxos else nat ?e) - start)
                 (drop start utxos)"
    from "1.prems" True no obtain rest where
      r: "splitLoop bs utxos cb (nat ?e) = Inr rest" and b: "batches = shardOf cb chunk # rest"
      by (auto simp: splitLoop_step chunk_def split: sum.splits)
    from "1.IH" [OF True refl no refl refl refl refl r] True obtain chunks where
      ch: "rest = map (shardOf cb) chunks" "concat chunks = drop (nat ?e) utxos"
        "\<forall>c\<in>set chunks. length c \<le> bs"
      by auto
    have cl: "length chunk \<le> bs"
      using go_int_le [of "int start + int bs"] by (auto simp: chunk_def)
    have cat: "chunk @ drop (nat ?e) utxos = drop start utxos"
    proof (cases "?e > int (length utxos)")
      case True
      then show ?thesis by (simp add: chunk_def)
    next
      case False
      with no have le: "start \<le> nat ?e" by simp
      have "drop (nat ?e) utxos = drop (nat ?e - start) (drop start utxos)"
        using le by simp
      moreover have "chunk = take (nat ?e - start) (drop start utxos)"
        using False by (simp add: chunk_def)
      ultimately show ?thesis by (simp only: append_take_drop_id)
    qed
    show ?thesis
      using b ch cat True cl
      by (intro exI [of _ "chunk # chunks"]) simp
  qed
qed


lemma splitLoop_single:
  assumes "0 < bs" and "utxos \<noteq> []" and "length utxos \<le> bs" and "int bs < 2 ^ 63"
  shows "splitLoop bs utxos cb 0 = Inr [shardOf cb utxos]"
proof -
  have e: "go_int (int 0 + int bs) = int bs"
    using assms by (simp add: go_int_id)
  have "splitLoop bs utxos cb (nat (go_int (int 0 + int bs))) = Inr []"
    using assms e by (simp add: splitLoop_done)
  moreover have "\<not> go_int (int 0 + int bs) \<le> int 0" using assms e by simp
  ultimately show ?thesis
    using assms e splitLoop_step [of bs 0 utxos cb] by auto
qed

lemma splitLoop_two:
  assumes bs: "0 < bs" and len: "length utxos = bs + 1" and small: "2 * int bs < 2 ^ 63"
  shows "splitLoop bs utxos cb 0 = Inr [shardOf cb (take bs utxos), shardOf cb [utxos ! bs]]"
proof -
  let ?e0 = "go_int (int 0 + int bs)"
  let ?e1 = "go_int (int bs + int bs)"
  have d: "drop bs utxos = [utxos ! bs]"
    using len Cons_nth_drop_Suc [of bs utxos] by simp
  have e0: "?e0 = int bs"
    using small go_int_id [of "int bs"] by simp
  have e1: "?e1 = int bs + int bs"
    using small go_int_id [of "int bs + int bs"] by simp
  have n0: "nat ?e0 = bs" using e0 by simp
  have n1: "nat ?e1 = bs + bs" using e1 by simp
  have 3: "splitLoop bs utxos cb (bs + bs) = Inr []"
    using len bs by (intro splitLoop_done) simp
  have tk1: "take ((if ?e1 > int (length utxos) then length utxos else nat ?e1) - bs)
               (drop bs utxos) = [utxos ! bs]"
    using bs len d n1 e1 by auto
  have tk0: "take ((if ?e0 > int (length utxos) then length utxos else nat ?e0) - 0)
               (drop 0 utxos) = take bs utxos"
    using bs len n0 e0 by auto
  have no1: "\<not> ?e1 \<le> int bs" using bs e1 by simp
  have no0: "\<not> ?e0 \<le> int 0" using bs e0 by simp
  have lt1: "bs < length utxos" and lt0: "0 < length utxos" using len by simp_all
  have c1: "splitLoop bs utxos cb (nat ?e1) = Inr []" using n1 3 by simp
  have 2: "splitLoop bs utxos cb bs = Inr [shardOf cb [utxos ! bs]]"
    by (simp only: splitLoop_step [OF bs lt1 no1] tk1 c1 sum.case)
  have c0: "splitLoop bs utxos cb (nat ?e0) = Inr [shardOf cb [utxos ! bs]]"
    using n0 2 by simp
  show ?thesis
    by (simp only: splitLoop_step [OF bs lt0 no0] tk0 c0 sum.case)
qed

lemma splitIntoBatches_pos:
  assumes pos: "0 < utxoBatchSize s"
    and fit: "int (length utxos) + utxoBatchSize s \<le> 2 ^ 63"
  shows "splitIntoBatches s utxos cb = splitLoop (nat (utxoBatchSize s)) utxos cb 0"
proof -
  let ?x = "int (length utxos) + utxoBatchSize s - 1"
  have x0: "0 \<le> ?x" using pos by simp
  have x: "go_int ?x = ?x" using pos fit by (intro go_int_id) auto
  have q: "?x sdiv utxoBatchSize s = ?x div utxoBatchSize s"
    using pos x0 by (auto simp: signed_divide_int_def sgn_if)
  from x0 obtain n where n: "?x = int n" by (rule nonneg_int_cases)
  from pos obtain m where m: "utxoBatchSize s = int m"
    by (metis nonneg_int_cases less_imp_le)
  have "?x div utxoBatchSize s = int n div int m"
    using n m by simp
  then have "?x div utxoBatchSize s = int (n div m)"
    by (simp add: zdiv_int)
  moreover have "int (n div m) \<le> int n" by simp
  ultimately have d0: "0 \<le> ?x div utxoBatchSize s" and d1: "?x div utxoBatchSize s \<le> ?x"
    using n by simp_all
  from d1 fit have "?x div utxoBatchSize s < 2 ^ 63" by linarith
  with d0 have "go_int (?x div utxoBatchSize s) = ?x div utxoBatchSize s"
    by (intro go_int_id) auto
  with q x d0 pos show ?thesis by (simp add: splitIntoBatches_def)
qed

lemma splitIntoBatches_Inr_pos:
  "splitIntoBatches s utxos cb = Inr batches \<Longrightarrow> utxos \<noteq> [] \<Longrightarrow>
     0 < utxoBatchSize s \<and> splitLoop (nat (utxoBatchSize s)) utxos cb 0 = Inr batches"
  by (auto simp: splitIntoBatches_def split: if_splits)



lemma GetBinsToStore_InrE:
  assumes "GetBinsToStore d s nowMilli t bh ids hts idxs external
             h cb cf lk = Inr batches"
  obtains utxoHashes utxos feeInt sz extSz first extra where
    "Outputs t \<noteq> []"
    "utxoEntries d cb bh utxoHashes 0 (Outputs t) = Inr utxos"
    "splitIntoBatches s utxos
       (commonBinsOf s t bh h cb cf lk feeInt sz extSz)
       = Inr (first # extra)"
    "batches =
       (first @ firstRecordBins nowMilli bh ids hts idxs
                  (Suc (length extra)) (length utxos) @
        (if external \<or> extra \<noteq> []
         then [(fields_External, BoolValue True)]
         else [(fields_Inputs, ListValue (map Some (map (extendedInput d) (Inputs t)))),
               (fields_Outputs, ListValue (map (map_option (Output_Bytes d)) (Outputs t)))]))
       # extra"
  using assms
  unfolding GetBinsToStore_def Let_def commonBinsOf_def firstRecordBins_def
  by (auto split: if_splits sum.splits list.splits prod.splits)

lemma sum_counts_concat:
  "sum_list (map (\<lambda>c. length (filter P c)) chunks) = length (filter P (concat chunks))"
  by (induction chunks) auto

lemma bin_value_shard_RecordUtxos:
  "bin_value (shardOf (commonBinsOf s t bh h cb cf lk f sz esz) chunk @ rest) fields_RecordUtxos
     = Some (IntegerValue (int (length (filter (\<lambda>utxo. utxo \<noteq> None) chunk))))"
  by (simp add: bin_value_def shardOf_def commonBinsOf_def)

lemma bin_value_shard_Utxos:
  "bin_value (shardOf (commonBinsOf s t bh h cb cf lk f sz esz) chunk @ rest) fields_Utxos
     = Some (ListValue chunk)"
  by (simp add: bin_value_def shardOf_def commonBinsOf_def)

lemma bin_value_shard_SpendingHeight:
  "bin_value (shardOf (commonBinsOf s t bh h True cf lk f sz esz) chunk @ rest) fields_SpendingHeight
     = Some (IntegerValue (uint (bh + ucast (CoinbaseMaturity s))))"
  by (simp add: bin_value_def shardOf_def commonBinsOf_def)

lemma bin_value_first_TotalUtxos:
  "bin_value (shardOf (commonBinsOf s t bh h cb cf lk f sz esz) chunk @
              firstRecordBins now bh ids hts idxs n m @ rest) fields_TotalUtxos
     = Some (IntegerValue (int m))"
  by (simp add: bin_value_def shardOf_def commonBinsOf_def firstRecordBins_def)

lemma bin_value_first_TotalExtraRecs:
  "bin_value (shardOf (commonBinsOf s t bh h cb cf lk f sz esz) chunk @
              firstRecordBins now bh ids hts idxs n m @ rest) fields_TotalExtraRecs
     = Some (IntegerValue (int n - 1))"
  by (simp add: bin_value_def shardOf_def commonBinsOf_def firstRecordBins_def)

lemma bin_value_first_External:
  "bin_value (shardOf (commonBinsOf s t bh h cb cf lk f sz esz) chunk @
              firstRecordBins now bh ids hts idxs n m @ rest) fields_External
     = map_of rest fields_External"
  by (simp add: bin_value_def shardOf_def commonBinsOf_def firstRecordBins_def map_add_def)

lemma GetBinsToStore_unfold:
  assumes "Outputs t \<noteq> []"
    and "feesAndHashes d t h bh = Inr (fee, hs)"
    and "utxoEntries d cb bh hs 0 (Outputs t) = Inr utxos"
    and "Uint64ToInt fee = Inr feeInt"
    and "splitIntoBatches s utxos
           (commonBinsOf s t bh h cb cf lk feeInt
              (if Inputs t = [] then 0 else Tx_Size d t)
              (if Inputs t = [] then 0 else int (length (Tx_ExtendedBytes d t))))
         = Inr (first # extra)"
  shows "GetBinsToStore d s nowMilli t bh ids hts idxs external h cb cf lk =
         Inr ((first @ firstRecordBins nowMilli bh ids hts idxs (Suc (length extra)) (length utxos) @
               (if external \<or> extra \<noteq> []
                then [(fields_External, BoolValue True)]
                else [(fields_Inputs, ListValue (map Some (map (extendedInput d) (Inputs t)))),
                      (fields_Outputs, ListValue (map (map_option (Output_Bytes d)) (Outputs t)))]))
              # extra)"
proof -
  from assms(2) have h:
    "(if Inputs t = []
      then (case GetUtxoHashes d t h of Inl e \<Rightarrow> Inl e | Inr hs \<Rightarrow> Inr (0, hs))
      else GetFeesAndUtxoHashes d t bh) = Inr (fee, hs)"
    by (simp add: feesAndHashes_def)
  show ?thesis
    unfolding GetBinsToStore_def Let_def
    by (simp only: h assms if_False sum.case prod.case list.case)
       (simp add: firstRecordBins_def)
qed

lemma shardOf_inject: "shardOf cbs c = shardOf cbs c' \<Longrightarrow> c = c'"
  by (simp add: shardOf_def)

lemma bin_value_shard_RecordUtxos':
  "bin_value (shardOf (commonBinsOf s t bh h cb cf lk f sz esz) chunk) fields_RecordUtxos
     = Some (IntegerValue (int (length (filter (\<lambda>utxo. utxo \<noteq> None) chunk))))"
  using bin_value_shard_RecordUtxos [of s t bh h cb cf lk f sz esz chunk "[]"] by simp

lemma bin_value_shard_SpendingHeight':
  "bin_value (shardOf (commonBinsOf s t bh h True cf lk f sz esz) chunk) fields_SpendingHeight
     = Some (IntegerValue (uint (bh + ucast (CoinbaseMaturity s))))"
  using bin_value_shard_SpendingHeight [of s t bh h cf lk f sz esz chunk "[]"] by simp

lemma bin_value_shard_Utxos':
  "bin_value (shardOf (commonBinsOf s t bh h cb cf lk f sz esz) chunk) fields_Utxos
     = Some (ListValue chunk)"
  using bin_value_shard_Utxos [of s t bh h cb cf lk f sz esz chunk "[]"] by simp

lemma bin_value_first_External_absent:
  "bin_value (shardOf (commonBinsOf s t bh h cb cf lk f sz esz) chunk @
              firstRecordBins now bh ids hts idxs n m @
              [(fields_Inputs, x), (fields_Outputs, y)]) fields_External = None"
  by (simp add: bin_value_first_External)

lemma bin_value_first_External_present:
  "bin_value (shardOf (commonBinsOf s t bh h cb cf lk f sz esz) chunk @
              firstRecordBins now bh ids hts idxs n m @
              [(fields_External, BoolValue True)]) fields_External = Some (BoolValue True)"
  by (simp add: bin_value_first_External)

lemma GetBinsToStore_shape:
  assumes "GetBinsToStore d s now t bh ids hts idxs ext h cb cf lk = Inr batches"
  obtains utxoHashes utxos chunk chunks fI sz esz where
    "Outputs t \<noteq> []"
    "utxoEntries d cb bh utxoHashes 0 (Outputs t) = Inr utxos"
    "0 < utxoBatchSize s"
    "concat (chunk # chunks) = utxos"
    "\<forall>c\<in>set (chunk # chunks). int (length c) \<le> utxoBatchSize s"
    "batches =
       (shardOf (commonBinsOf s t bh h cb cf lk fI sz esz) chunk @
        firstRecordBins now bh ids hts idxs (Suc (length chunks)) (length utxos) @
        (if ext \<or> chunks \<noteq> []
         then [(fields_External, BoolValue True)]
         else [(fields_Inputs, ListValue (map Some (map (extendedInput d) (Inputs t)))),
               (fields_Outputs, ListValue (map (map_option (Output_Bytes d)) (Outputs t)))]))
       # map (shardOf (commonBinsOf s t bh h cb cf lk fI sz esz)) chunks"
proof -
  from assms obtain utxoHashes utxos fI sz esz first extra where
    ne: "Outputs t \<noteq> []"
    and ue: "utxoEntries d cb bh utxoHashes 0 (Outputs t) = Inr utxos"
    and sp: "splitIntoBatches s utxos (commonBinsOf s t bh h cb cf lk fI sz esz)
               = Inr (first # extra)"
    and b: "batches =
       (first @ firstRecordBins now bh ids hts idxs (Suc (length extra)) (length utxos) @
        (if ext \<or> extra \<noteq> []
         then [(fields_External, BoolValue True)]
         else [(fields_Inputs, ListValue (map Some (map (extendedInput d) (Inputs t)))),
               (fields_Outputs, ListValue (map (map_option (Output_Bytes d)) (Outputs t)))]))
       # extra"
    by (rule GetBinsToStore_InrE)
  let ?CB = "commonBinsOf s t bh h cb cf lk fI sz esz"
  from utxoEntries_Inr [OF ue] have len: "length utxos = length (Outputs t)" by simp
  from len ne have une: "utxos \<noteq> []" by auto
  from splitIntoBatches_Inr_pos [OF sp une] have pos: "0 < utxoBatchSize s"
    and loop: "splitLoop (nat (utxoBatchSize s)) utxos ?CB 0 = Inr (first # extra)"
    by simp_all
  from splitLoop_chunks [OF loop] obtain cs where
    cs: "first # extra = map (shardOf ?CB) cs"
    and cat0: "concat cs = (if 0 < nat (utxoBatchSize s) then drop 0 utxos else [])"
    and "0 < nat (utxoBatchSize s) \<and> 0 < length utxos \<longrightarrow> cs \<noteq> []"
    and bound: "\<forall>c\<in>set cs. length c \<le> nat (utxoBatchSize s)"
    by (elim exE conjE)
  from cat0 pos have cat: "concat cs = utxos" by simp
  from cs obtain chunk chunks where cc: "cs = chunk # chunks"
    by (cases cs) auto
  with cs have f: "first = shardOf ?CB chunk" and e: "extra = map (shardOf ?CB) chunks"
    by simp_all
  show ?thesis
  proof (rule that [OF ne ue pos])
    show "concat (chunk # chunks) = utxos" using cat cc by simp
    show "\<forall>c\<in>set (chunk # chunks). int (length c) \<le> utxoBatchSize s"
      using bound cc pos by auto
    show "batches =
       (shardOf ?CB chunk @
        firstRecordBins now bh ids hts idxs (Suc (length chunks)) (length utxos) @
        (if ext \<or> chunks \<noteq> []
         then [(fields_External, BoolValue True)]
         else [(fields_Inputs, ListValue (map Some (map (extendedInput d) (Inputs t)))),
               (fields_Outputs, ListValue (map (map_option (Output_Bytes d)) (Outputs t)))]))
       # map (shardOf ?CB) chunks"
      using b f e by simp
  qed
qed

lemma bin_value_append_found:
  "bin_value bins name = Some v \<Longrightarrow> bin_value (bins @ rest) name = Some v"
  by (simp add: bin_value_def)

subsection \<open>The external write protocol (claim C6)\<close>

lemma putRecords_Suc:
  "putRecords d fault txt h bins (Suc n) w =
     (case recordKey d h n of
        Inl err \<Rightarrow> (Some err, w, [])
      | Inr key \<Rightarrow>
          (case PutBins (fault n) w key (bins ! n) of
             (e, w') \<Rightarrow>
               if e = None \<or> e = Some (AerospikeError KEY_EXISTS_ERROR)
               then (case putRecords d fault txt h bins n w' of
                       (sent, w'', calls) \<Rightarrow> (sent, w'', n # calls))
               else (Some (TeranodeError ERR_PROCESSING txt), w', [n])))"
  by (simp add: recordKey_def
      split: sum.splits prod.splits option.splits go_error.splits ResultCode.splits)

declare putRecords.simps(2) [simp del]

lemma putRecords_calls:
  "\<exists>k \<le> n. snd (snd (putRecords d fault txt h bins n w)) = rev [k..<n]"
proof (induction n arbitrary: w)
  case 0
  then show ?case by simp
next
  case (Suc n)
  show ?case
  proof (cases "recordKey d h n")
    case (Inl err)
    then show ?thesis
      by (auto simp: putRecords_Suc intro: exI [of _ "Suc n"])
  next
    case (Inr key)
    obtain e w' where pb: "PutBins (fault n) w key (bins ! n) = (e, w')"
      by (cases "PutBins (fault n) w key (bins ! n)")
    show ?thesis
    proof (cases "e = None \<or> e = Some (AerospikeError KEY_EXISTS_ERROR)")
      case False
      with Inr pb have "snd (snd (putRecords d fault txt h bins (Suc n) w)) = rev [n..<Suc n]"
        by (auto simp: putRecords_Suc)
      then show ?thesis by (intro exI [of _ n]) simp
    next
      case True
      from Suc.IH [of w'] obtain k where k: "k \<le> n"
        "snd (snd (putRecords d fault txt h bins n w')) = rev [k..<n]" by blast
      with Inr pb True have "snd (snd (putRecords d fault txt h bins (Suc n) w)) = rev [k..<Suc n]"
        by (auto simp: putRecords_Suc split: prod.splits)
      with k show ?thesis by (intro exI [of _ k]) simp
    qed
  qed
qed

lemma PutBins_no_fault:
  "PutBins None w key bins =
     (if records w key = None
      then (None, w\<lparr>records := (records w)(key \<mapsto> bins)\<rparr>)
      else (Some (AerospikeError KEY_EXISTS_ERROR), w))"
  by (auto simp: PutBins_def split: option.splits)

lemma putRecords_completes:
  assumes "\<forall>i < n. recordKey d h i = Inr (key i)"
    and "inj_on key {..<n}"
    and "\<forall>i < n. fault i = None"
  shows "\<exists>w'. putRecords d fault txt h bins n w = (None, w', rev [0..<n]) \<and>
              blobs w' = blobs w \<and>
              (\<forall>i < n. records w' (key i)
                         = (case records w (key i) of
                              Some old \<Rightarrow> Some old
                            | None \<Rightarrow> Some (bins ! i))) \<and>
              (\<forall>k. k \<notin> key ` {..<n} \<longrightarrow> records w' k = records w k)"
  using assms
proof (induction n arbitrary: w)
  case 0
  then show ?case by simp
next
  case (Suc n)
  have kn: "recordKey d h n = Inr (key n)" and fn: "fault n = None"
    using Suc.prems by simp_all
  have inj: "inj_on key {..<n}"
    using Suc.prems(2) by (rule inj_on_subset) auto
  have fresh: "\<And>i. i < n \<Longrightarrow> key i \<noteq> key n"
    using Suc.prems(2) by (auto simp: inj_on_def)
  define w1 where "w1 = snd (PutBins None w (key n) (bins ! n))"
  have w1: "w1 = (if records w (key n) = None
                  then w\<lparr>records := (records w)(key n \<mapsto> bins ! n)\<rparr> else w)"
    by (simp add: w1_def PutBins_no_fault)
  from Suc.IH [of w1] Suc.prems inj obtain w' where
    run: "putRecords d fault txt h bins n w1 = (None, w', rev [0..<n])"
    and bl: "blobs w' = blobs w1"
    and recs: "\<forall>i < n. records w' (key i)
                 = (case records w1 (key i) of Some old \<Rightarrow> Some old | None \<Rightarrow> Some (bins ! i))"
    and other: "\<forall>k. k \<notin> key ` {..<n} \<longrightarrow> records w' k = records w1 k"
    by auto
  have step: "putRecords d fault txt h bins (Suc n) w = (None, w', rev [0..<Suc n])"
    using kn fn run
    by (cases "records w (key n) = None") (auto simp: putRecords_Suc PutBins_no_fault w1)
  have notin: "key n \<notin> key ` {..<n}"
  proof
    assume "key n \<in> key ` {..<n}"
    then obtain i where "i < n" and "key n = key i" by auto
    with fresh [of i] show False by simp
  qed
  have "\<forall>i < Suc n. records w' (key i)
          = (case records w (key i) of Some old \<Rightarrow> Some old | None \<Rightarrow> Some (bins ! i))"
  proof (intro allI impI)
    fix i assume "i < Suc n"
    then consider "i < n" | "i = n" by linarith
    then show "records w' (key i)
          = (case records w (key i) of Some old \<Rightarrow> Some old | None \<Rightarrow> Some (bins ! i))"
    proof cases
      case 1
      with recs fresh show ?thesis by (simp add: w1)
    next
      case 2
      with other notin show ?thesis by (auto simp: w1 split: option.splits)
    qed
  qed
  moreover have "\<forall>k. k \<notin> key ` {..<Suc n} \<longrightarrow> records w' k = records w k"
    using other by (auto simp: w1 lessThan_Suc)
  moreover have "blobs w' = blobs w" using bl by (simp add: w1)
  ultimately show ?case using step by blast
qed

lemma externalStore_Set_no_fault:
  "externalStore_Set None w key ft data = (e, w1) \<Longrightarrow>
     \<not> (e \<noteq> None \<and> \<not> isBlobAlreadyExists (the e)) \<and> records w1 = records w"
  by (auto simp: externalStore_Set_def isBlobAlreadyExists_def split: option.splits)

lemma storeExternally_calls:
  "\<exists>k \<le> length binsToStore.
     snd (snd (storeExternally d r idx w bItem binsToStore)) = rev [k..<length binsToStore]"
proof -
  have nil: "\<exists>k \<le> length binsToStore. [] = rev [k..<length binsToStore]"
    by (intro exI [of _ "length binsToStore"]) simp
  show ?thesis
    using nil putRecords_calls [of "length binsToStore"]
    by (auto simp: storeExternally_def StoreTransactionExternally_def
        StorePartialTransactionExternally_def split: prod.splits)
qed

text \<open>
  Claim C6, for \<open>StoreTransactionExternally\<close> and \<open>StorePartialTransactionExternally\<close>
  alike. In every run, whatever the stores answer, the records are put in descending index
  order without a gap, starting at the last one. When the record keys are distinct and
  neither store fails, then from every state of the record store, whichever records an
  earlier attempt has left there: \<open>PutBins\<close> is called for every record, from the last
  down to record 0, which is put last; \<open>nil\<close> is sent on \<open>done\<close>; a record that was
  present (its put answers \<open>KEY_EXISTS_ERROR\<close> and is skipped) is kept as it was; every
  record that was missing now holds its bins; and no other key is touched.
\<close>

theorem external_write_protocol:
  assumes keys: "\<forall>i < length binsToStore. recordKey d (txHash bItem) i = Inr (key i)"
    and inj: "inj_on key {..<length binsToStore}"
    and noblob: "blobFault r idx = None"
    and noput: "\<forall>i < length binsToStore. putFault r idx i = None"
  shows "(\<exists>k \<le> length binsToStore.
            snd (snd (storeExternally d r0 idx w0 bItem binsToStore))
              = rev [k..<length binsToStore]) \<and>
         (\<exists>w'. storeExternally d r idx w bItem binsToStore
                  = (None, w', rev [0..<length binsToStore]) \<and>
               (\<forall>i < length binsToStore.
                  records w' (key i)
                    = (case records w (key i) of
                         Some old \<Rightarrow> Some old
                       | None \<Rightarrow> Some (binsToStore ! i))) \<and>
               (\<forall>k. k \<notin> key ` {..<length binsToStore} \<longrightarrow> records w' k = records w k))"
proof
  show "\<exists>k \<le> length binsToStore.
          snd (snd (storeExternally d r0 idx w0 bItem binsToStore))
            = rev [k..<length binsToStore]"
    by (rule storeExternally_calls)
next
  let ?n = "length binsToStore"
  have run: "\<exists>w'. putRecords d (putFault r idx) msg (txHash bItem) binsToStore ?n w1
                  = (None, w', rev [0..<?n]) \<and>
               (\<forall>i < ?n. records w' (key i)
                    = (case records w (key i) of
                         Some old \<Rightarrow> Some old
                       | None \<Rightarrow> Some (binsToStore ! i))) \<and>
               (\<forall>k. k \<notin> key ` {..<?n} \<longrightarrow> records w' k = records w k)"
    if "records w1 = records w" for w1 msg
    using putRecords_completes [OF keys inj noput, of msg binsToStore w1] that by auto
  show "\<exists>w'. storeExternally d r idx w bItem binsToStore = (None, w', rev [0..<?n]) \<and>
               (\<forall>i < ?n. records w' (key i)
                    = (case records w (key i) of
                         Some old \<Rightarrow> Some old
                       | None \<Rightarrow> Some (binsToStore ! i))) \<and>
               (\<forall>k. k \<notin> key ` {..<?n} \<longrightarrow> records w' k = records w k)"
  proof (cases "Inputs (tx bItem) = []")
    case True
    obtain e w1 where set: "externalStore_Set None w (txHash bItem) FileTypeOutputs
             (UTXOWrapper_Bytes d (txHash bItem) (blockHeight bItem) (isCoinbase bItem)
                (wrapperUTXOs (Outputs (tx bItem)))) = (e, w1)"
      by (cases "externalStore_Set None w (txHash bItem) FileTypeOutputs
             (UTXOWrapper_Bytes d (txHash bItem) (blockHeight bItem) (isCoinbase bItem)
                (wrapperUTXOs (Outputs (tx bItem))))")
    from externalStore_Set_no_fault [OF set]
    have ok: "\<not> (e \<noteq> None \<and> \<not> isBlobAlreadyExists (the e))" and rw: "records w1 = records w"
      by simp_all
    from run [OF rw] True set ok noblob show ?thesis
      by (simp add: storeExternally_def StorePartialTransactionExternally_def)
  next
    case False
    obtain e w1 where set: "externalStore_Set None w (txHash bItem) FileTypeTx
             (Tx_ExtendedBytes d (tx bItem)) = (e, w1)"
      by (cases "externalStore_Set None w (txHash bItem) FileTypeTx
             (Tx_ExtendedBytes d (tx bItem))")
    from externalStore_Set_no_fault [OF set]
    have ok: "\<not> (e \<noteq> None \<and> \<not> isBlobAlreadyExists (the e))" and rw: "records w1 = records w"
      by simp_all
    from run [OF rw] False set ok noblob show ?thesis
      by (simp add: storeExternally_def StoreTransactionExternally_def)
  qed
qed

text \<open>Witness for C6: a retry on a store where an earlier attempt has left the extension
  record 1 behind. The calls are for record 1, then record 0; record 1 keeps its earlier
  content and record 0 is written.\<close>

theorem external_write_protocol_witness:
  "fst (storeExternally example_deps no_faults 0
          (empty_world\<lparr>records := [[9, 1] \<mapsto> [(fields_TxID, BytesValue [9])]]\<rparr>)
          (example_item (example_tx [Some example_out, Some example_out, Some example_out]))
          [[(fields_TotalExtraRecs, IntegerValue 1)], [(fields_RecordUtxos, IntegerValue 1)]])
     = None \<and>
   snd (snd (storeExternally example_deps no_faults 0
          (empty_world\<lparr>records := [[9, 1] \<mapsto> [(fields_TxID, BytesValue [9])]]\<rparr>)
          (example_item (example_tx [Some example_out, Some example_out, Some example_out]))
          [[(fields_TotalExtraRecs, IntegerValue 1)], [(fields_RecordUtxos, IntegerValue 1)]]))
     = [1, 0] \<and>
   records (fst (snd (storeExternally example_deps no_faults 0
          (empty_world\<lparr>records := [[9, 1] \<mapsto> [(fields_TxID, BytesValue [9])]]\<rparr>)
          (example_item (example_tx [Some example_out, Some example_out, Some example_out]))
          [[(fields_TotalExtraRecs, IntegerValue 1)], [(fields_RecordUtxos, IntegerValue 1)]])))
     [9, 0] = Some [(fields_TotalExtraRecs, IntegerValue 1)] \<and>
   records (fst (snd (storeExternally example_deps no_faults 0
          (empty_world\<lparr>records := [[9, 1] \<mapsto> [(fields_TxID, BytesValue [9])]]\<rparr>)
          (example_item (example_tx [Some example_out, Some example_out, Some example_out]))
          [[(fields_TotalExtraRecs, IntegerValue 1)], [(fields_RecordUtxos, IntegerValue 1)]])))
     [9, 1] = Some [(fields_TxID, BytesValue [9])]"
proof -
  let ?w = "empty_world\<lparr>records := [[9, 1] \<mapsto> [(fields_TxID, BytesValue [9])]]\<rparr>"
  let ?item = "example_item (example_tx [Some example_out, Some example_out, Some example_out])"
  let ?bins = "[[(fields_TotalExtraRecs, IntegerValue 1)], [(fields_RecordUtxos, IntegerValue 1)]]"
  let ?key = "\<lambda>i. [9, ucast (IntToUint32 i)] :: bytes"
  have two: "\<And>i. i < length ?bins \<longleftrightarrow> i = 0 \<or> i = 1" by auto
  have keys: "\<forall>i < length ?bins. recordKey example_deps (txHash ?item) i = Inr (?key i)"
    by (simp add: recordKey_def example_deps_def example_item_def)
  have inj: "inj_on ?key {..<length ?bins}"
    by (auto simp: inj_on_def IntToUint32_def less_Suc_eq)
  have nb: "blobFault no_faults 0 = None" and np: "\<forall>i < length ?bins. putFault no_faults 0 i = None"
    by (simp_all add: no_faults_def)
  from external_write_protocol [OF keys inj nb np, of no_faults ?w ?w]
  obtain w' where
    run: "storeExternally example_deps no_faults 0 ?w ?item ?bins = (None, w', rev [0..<length ?bins])"
    and recs: "\<forall>i < length ?bins. records w' (?key i)
                 = (case records ?w (?key i) of Some old \<Rightarrow> Some old | None \<Rightarrow> Some (?bins ! i))"
    by blast
  have "records w' (?key 0) = Some [(fields_TotalExtraRecs, IntegerValue 1)]"
    using recs [rule_format, of 0] by (simp add: IntToUint32_def empty_world_def)
  moreover have "records w' (?key 1) = Some [(fields_TxID, BytesValue [9])]"
    using recs [rule_format, of 1] by (simp add: IntToUint32_def empty_world_def)
  ultimately show ?thesis
    by (simp add: run IntToUint32_def)
qed

subsection \<open>The records an accepted \<open>Create\<close> leaves\<close>

lemma putRecords_all_present:
  assumes "\<forall>i < n. recordKey d h i = Inr (key i)"
    and "\<forall>i < n. records w (key i) \<noteq> None"
    and "\<forall>i < n. fault i = None"
  shows "putRecords d fault msg h bins n w = (None, w, rev [0..<n])"
  using assms
proof (induction n)
  case 0
  then show ?case by simp
next
  case (Suc n)
  then have "putRecords d fault msg h bins n w = (None, w, rev [0..<n])" by simp
  moreover have "recordKey d h n = Inr (key n)" "records w (key n) \<noteq> None" "fault n = None"
    using Suc.prems by simp_all
  ultimately show ?case
    by (auto simp: putRecords_Suc PutBins_no_fault)
qed

lemma storeExternally_unfold:
  "storeExternally d r idx w bItem binsToStore =
     (case externalStore_Set (blobFault r idx) w (txHash bItem) (fst (blobOf d bItem))
             (snd (blobOf d bItem)) of
        (err, w') \<Rightarrow>
          if err \<noteq> None \<and> \<not> isBlobAlreadyExists (the err)
          then (Some (TeranodeError ERR_TX_EXISTS
                  (if Inputs (tx bItem) = []
                   then ''[StorePartialTransactionExternally] error writing output to external store''
                   else ''[GetBinsToStore] error writing transaction to external store'')),
                w', [])
          else putRecords d (putFault r idx)
                 (if Inputs (tx bItem) = []
                  then ''could not put partial bins (extended mode) to store''
                  else ''[StoreTransactionExternally] could not put bins (extended mode) to store'')
                 (txHash bItem) binsToStore (length binsToStore) w')"
  by (simp add: storeExternally_def StoreTransactionExternally_def
      StorePartialTransactionExternally_def blobOf_def split: prod.splits)

lemma storeExternally_completes:
  assumes "\<forall>i < length bins. recordKey d (txHash bItem) i = Inr (key i)"
    and "inj_on key {..<length bins}"
    and "blobFault r idx = None"
    and "\<forall>i < length bins. putFault r idx i = None"
  shows "\<exists>w'. storeExternally d r idx w bItem bins = (None, w', rev [0..<length bins]) \<and>
              (\<forall>i < length bins. records w' (key i)
                 = (case records w (key i) of Some old \<Rightarrow> Some old | None \<Rightarrow> Some (bins ! i))) \<and>
              blobs w' (txHash bItem, fst (blobOf d bItem)) \<noteq> None"
proof -
  obtain e w1 where set: "externalStore_Set None w (txHash bItem) (fst (blobOf d bItem))
                            (snd (blobOf d bItem)) = (e, w1)"
    by (cases "externalStore_Set None w (txHash bItem) (fst (blobOf d bItem))
                 (snd (blobOf d bItem))")
  from externalStore_Set_no_fault [OF set]
  have ok: "\<not> (e \<noteq> None \<and> \<not> isBlobAlreadyExists (the e))" and rw: "records w1 = records w"
    by simp_all
  from set have bl: "blobs w1 (txHash bItem, fst (blobOf d bItem)) \<noteq> None"
    by (auto simp: externalStore_Set_def split: option.splits)
  define msg where "msg = (if Inputs (tx bItem) = []
                  then ''could not put partial bins (extended mode) to store''
                  else ''[StoreTransactionExternally] could not put bins (extended mode) to store'')"
  from putRecords_completes [OF assms(1,2,4), of msg bins w1] obtain w' where
    run: "putRecords d (putFault r idx) msg (txHash bItem) bins (length bins) w1
            = (None, w', rev [0..<length bins])"
    and bw: "blobs w' = blobs w1"
    and recs: "\<forall>i < length bins. records w' (key i)
                 = (case records w1 (key i) of Some old \<Rightarrow> Some old | None \<Rightarrow> Some (bins ! i))"
    by blast
  have "storeExternally d r idx w bItem bins = (None, w', rev [0..<length bins])"
    unfolding storeExternally_unfold
    using set ok assms(3) run by (simp add: msg_def)
  with recs rw bw bl show ?thesis by simp
qed

lemma storeExternally_again:
  assumes "\<forall>i < length bins. recordKey d (txHash bItem) i = Inr (key i)"
    and "\<forall>i < length bins. records w (key i) \<noteq> None"
    and "blobs w (txHash bItem, fst (blobOf d bItem)) \<noteq> None"
    and "blobFault r idx = None"
    and "\<forall>i < length bins. putFault r idx i = None"
  shows "storeExternally d r idx w bItem bins = (None, w, rev [0..<length bins])"
proof -
  have set: "externalStore_Set None w (txHash bItem) (fst (blobOf d bItem)) (snd (blobOf d bItem))
               = (Some (TeranodeError ERR_BLOB_ALREADY_EXISTS ''blob already exists''), w)"
    using assms(3) by (auto simp: externalStore_Set_def)
  show ?thesis
    unfolding storeExternally_unfold
    using set assms(4) putRecords_all_present [OF assms(1,2,5)]
    by (simp add: isBlobAlreadyExists_def)
qed

lemma storeExternally_blob_failure:
  assumes "blobFault r idx = Some e" and "\<not> isBlobAlreadyExists e"
  shows "storeExternally d r idx w bItem bins =
           (Some (TeranodeError ERR_TX_EXISTS
              (if Inputs (tx bItem) = []
               then ''[StorePartialTransactionExternally] error writing output to external store''
               else ''[GetBinsToStore] error writing transaction to external store'')), w, [])"
  unfolding storeExternally_unfold using assms
  by (simp add: externalStore_Set_def)

subsection \<open>One item through \<open>sendStoreBatch\<close> and \<open>Create\<close>\<close>

lemma itemOf_simps [simp]:
  "txHash (itemOf d t height opts m) = (case opt_TxID opts of Some h \<Rightarrow> h | None \<Rightarrow> TxIDChainHash d t)"
  "isCoinbase (itemOf d t height opts m)
     = (case opt_IsCoinbase opts of Some c \<Rightarrow> c | None \<Rightarrow> meta_IsCoinbase m)"
  "tx (itemOf d t height opts m) = t"
  "blockHeight (itemOf d t height opts m) = height"
  "blockIDs (itemOf d t height opts m) = map fst (opt_MinedBlockInfos opts)"
  "blockHeights (itemOf d t height opts m) = map (\<lambda>b. fst (snd b)) (opt_MinedBlockInfos opts)"
  "subtreeIdxs (itemOf d t height opts m) = map (\<lambda>b. snd (snd b)) (opt_MinedBlockInfos opts)"
  "conflicting (itemOf d t height opts m) = opt_Conflicting opts"
  "locked (itemOf d t height opts m) = opt_Locked opts"
  by (simp_all add: itemOf_def)

lemma sendStoreBatch_single_noop:
  assumes "prepareItem d s r 0 w bItem = Inr (BatchReadNoop, sent, w1)"
    and "batchFault r = None" and "recordFault r 0 = None"
  shows "sendStoreBatch d s r w [bItem] = Inr ([sent], w1)"
  using assms
  by (simp add: sendStoreBatch_def BatchOperate_def afterBatchItem_def)

lemma sendStoreBatch_single_write:
  assumes "prepareItem d s r 0 w bItem = Inr (BatchWrite key0 ops, [], w1)"
    and "records w1 key0 = None"
    and "batchFault r = None" and "recordFault r 0 = None"
    and "int (length (Outputs (tx bItem))) \<le> utxoBatchSize s"
  shows "sendStoreBatch d s r w [bItem]
           = Inr ([[None]], w1\<lparr>records := (records w1)(key0 \<mapsto> ops)\<rparr>)"
  using assms
  by (simp add: sendStoreBatch_def BatchOperate_def afterBatchItem_def PutBins_no_fault)

lemma sendStoreBatch_single_present:
  assumes "prepareItem d s r 0 w bItem = Inr (BatchWrite key0 ops, [], w1)"
    and "records w1 key0 \<noteq> None"
    and "batchFault r = None" and "recordFault r 0 = None"
  shows "sendStoreBatch d s r w [bItem]
           = Inr ([[Some (TeranodeError ERR_TX_EXISTS
                            ''[sendStoreBatch-2] already exists in store'')]], w1)"
  using assms
  by (simp add: sendStoreBatch_def BatchOperate_def afterBatchItem_def PutBins_no_fault)

lemma prepareItem_multi_record:
  assumes "NewKey d (txHash bItem) = Inr key0"
    and "itemBins d s r bItem = Inr bins"
    and "1 < length bins"
    and "storeExternally d r idx w bItem bins = (sent, w1, calls)"
  shows "prepareItem d s r idx w bItem = Inr (BatchReadNoop, [sent], w1)"
  using assms by (simp add: prepareItem_def itemBins_def)

lemma writeBlobInBatch_no_fault:
  assumes "blobFault r idx = None"
  shows "\<exists>w'. writeBlobInBatch d r idx w bItem = (None, w') \<and> records w' = records w"
proof -
  obtain e w1 where set: "externalStore_Set None w (txHash bItem) (fst (blobOf d bItem))
                            (snd (blobOf d bItem)) = (e, w1)"
    by (cases "externalStore_Set None w (txHash bItem) (fst (blobOf d bItem))
                 (snd (blobOf d bItem))")
  from externalStore_Set_no_fault [OF set] set assms show ?thesis
    by (auto simp: writeBlobInBatch_def blobOf_def split: if_splits)
qed

lemma prepareItem_single_record:
  assumes "NewKey d (txHash bItem) = Inr key0"
    and "itemBins d s r bItem = Inr bins"
    and "\<not> 1 < length bins"
    and "bins \<noteq> []"
    and "blobFault r idx = None"
  shows "\<exists>w'. prepareItem d s r idx w bItem
                = Inr (BatchWrite key0 (hd bins @ deleteAtHeightBins s bItem), [], w') \<and>
              records w' = records w"
proof -
  from assms(4) obtain b rest where b: "bins = b # rest" by (cases bins) auto
  show ?thesis
  proof (cases "externalOf d s (tx bItem)")
    case False
    with assms b show ?thesis
      by (simp add: prepareItem_def itemBins_def deleteAtHeightBins_def)
  next
    case True
    from writeBlobInBatch_no_fault [OF assms(5), of d w bItem] obtain w' where
      "writeBlobInBatch d r idx w bItem = (None, w')" "records w' = records w" by blast
    with True assms b show ?thesis
      by (simp add: prepareItem_def itemBins_def deleteAtHeightBins_def)
  qed
qed

lemma prepareItem_single_record_blob_failure:
  assumes "NewKey d (txHash bItem) = Inr key0"
    and "itemBins d s r bItem = Inr bins"
    and "\<not> 1 < length bins"
    and "externalOf d s (tx bItem)"
    and "blobFault r idx = Some e" and "\<not> isBlobAlreadyExists e"
  shows "prepareItem d s r idx w bItem
           = Inr (BatchReadNoop,
                  [Some (TeranodeError ERR_TX_EXISTS
                     (if Inputs (tx bItem) = []
                      then ''error writing outputs to external store''
                      else ''[sendStoreBatch] error batch writing transaction to external store''))],
                  w)"
  using assms
  by (simp add: prepareItem_def itemBins_def writeBlobInBatch_def externalStore_Set_def)

lemma Create_unfold:
  assumes "TxMetaDataFromTx d t = Inr txMeta0"
    and "parentsUpdated d w t opts = Inr w1"
    and "sendStoreBatch d s r w1 [itemOf d t height opts (metaOf txMeta0 opts)]
         = Inr ([sent # more_sent], w2)"
  shows "Create d s r w t height opts =
           ((case sent of
               None \<Rightarrow> Returned (Inr (metaOf txMeta0 opts))
             | Some err \<Rightarrow> Returned (Inl err)), w2)"
  using assms
  by (simp add: Create_def Let_def itemOf_def metaOf_def parentsUpdated_def split: option.splits)

lemma itemBins_single_fits:
  assumes "itemBins d s r bItem = Inr bins" and "\<not> 1 < length bins"
  shows "bins \<noteq> [] \<and> int (length (Outputs (tx bItem))) \<le> utxoBatchSize s"
proof -
  from assms(1) [unfolded itemBins_def]
  obtain utxoHashes utxos chunk chunks fI sz esz where
    ue: "utxoEntries d (isCoinbase bItem) (blockHeight bItem) utxoHashes 0 (Outputs (tx bItem))
           = Inr utxos"
    and cat: "concat (chunk # chunks) = utxos"
    and bound: "\<forall>c\<in>set (chunk # chunks). int (length c) \<le> utxoBatchSize s"
    and b: "length bins = Suc (length chunks)"
    by (rule GetBinsToStore_shape) simp
  from b assms(2) have "chunks = []" by simp
  with cat bound have "int (length utxos) \<le> utxoBatchSize s" by simp
  moreover from utxoEntries_Inr [OF ue] have "length utxos = length (Outputs (tx bItem))" by simp
  moreover from b have "bins \<noteq> []" by auto
  ultimately show ?thesis by simp
qed

text \<open>An accepted \<open>Create\<close> in a store that holds no record of the transaction: the records
  it leaves are the bins of \<open>GetBinsToStore\<close>.\<close>

lemma Create_fresh_stores:
  assumes meta: "TxMetaDataFromTx d t = Inr txMeta0"
    and parents: "parentsUpdated d w t opts = Inr w1"
    and bItem_def: "bItem = itemOf d t height opts (metaOf txMeta0 opts)"
    and bins: "itemBins d s r bItem = Inr bins"
    and key0: "NewKey d (txHash bItem) = Inr key0"
    and keys: "\<forall>i < length bins. recordKey d (txHash bItem) i = Inr (key i)"
    and inj: "inj_on key {..<length bins}"
    and fresh0: "records w1 key0 = None"
    and fresh: "\<forall>i < length bins. records w1 (key i) = None"
    and nb: "blobFault r 0 = None"
    and np: "\<forall>i < length bins. putFault r 0 i = None"
    and nbatch: "batchFault r = None"
    and nrec: "recordFault r 0 = None"
  shows "fst (Create d s r w t height opts) = Returned (Inr (metaOf txMeta0 opts)) \<and>
         storedRecords d (snd (Create d s r w t height opts)) (txHash bItem) (length bins)
           = map Some (if 1 < length bins then bins else [hd bins @ deleteAtHeightBins s bItem])"
proof (cases "1 < length bins")
  case True
  from storeExternally_completes [OF keys inj nb np, of w1] obtain w2 where
    run: "storeExternally d r 0 w1 bItem bins = (None, w2, rev [0..<length bins])"
    and recs: "\<forall>i < length bins. records w2 (key i)
                 = (case records w1 (key i) of Some old \<Rightarrow> Some old | None \<Rightarrow> Some (bins ! i))"
    by blast
  have s1: "sendStoreBatch d s r w1 [bItem] = Inr ([[None]], w2)"
    by (rule sendStoreBatch_single_noop
          [OF prepareItem_multi_record [OF key0 bins True run] nbatch nrec])
  have c: "Create d s r w t height opts = (Returned (Inr (metaOf txMeta0 opts)), w2)"
    using Create_unfold [OF meta parents s1 [unfolded bItem_def]] by simp
  have "map (\<lambda>i. case recordKey d (txHash bItem) i of Inl e \<Rightarrow> None | Inr key \<Rightarrow> records w2 key)
          [0..<length bins] = map Some bins"
    using keys recs fresh by (auto intro!: nth_equalityI)
  with c True show ?thesis by (simp add: storedRecords_def)
next
  case False
  from itemBins_single_fits [OF bins False]
  have ne: "bins \<noteq> []" and fits: "int (length (Outputs (tx bItem))) \<le> utxoBatchSize s"
    by simp_all
  from prepareItem_single_record [OF key0 bins False ne nb, of w1] obtain w' where
    p: "prepareItem d s r 0 w1 bItem
          = Inr (BatchWrite key0 (hd bins @ deleteAtHeightBins s bItem), [], w')"
    and rw: "records w' = records w1"
    by blast
  from fresh0 rw have f: "records w' key0 = None" by simp
  have s1: "sendStoreBatch d s r w1 [bItem]
              = Inr ([[None]],
                     w'\<lparr>records := (records w')(key0 \<mapsto> hd bins @ deleteAtHeightBins s bItem)\<rparr>)"
    by (rule sendStoreBatch_single_write [OF p f nbatch nrec fits])
  have c: "Create d s r w t height opts
             = (Returned (Inr (metaOf txMeta0 opts)),
                w'\<lparr>records := (records w')(key0 \<mapsto> hd bins @ deleteAtHeightBins s bItem)\<rparr>)"
    using Create_unfold [OF meta parents s1 [unfolded bItem_def]] by (simp add: bItem_def)
  with False key0 show ?thesis by (simp add: storedRecords_def)
qed

subsection \<open>Evaluation on the concrete inputs\<close>

lemmas example_defs = example_deps_def example_store_def example_out_def example_in_def
  example_tx_def example_partial_tx_def

lemmas GetBinsToStore_eval = GetBinsToStore_def Let_def commonBinsOf_def splitIntoBatches_def
  Uint64ToInt_def storedAsUTXO_def extendedInput_def signed_divide_int_def splitLoop.simps
  go_int_def

lemma example_meta:
  "TxMetaDataFromTx example_deps t
     = Inr \<lparr>meta_IsCoinbase = False, meta_Conflicting = False, meta_Locked = False\<rparr>"
  by (simp add: example_deps_def)

lemma example_parents: "parentsUpdated example_deps w t opts = Inr w"
  by (simp add: parentsUpdated_def example_deps_def)

lemma example_not_external:
  "\<not> externalOf example_deps example_store (example_tx outs)"
  by (simp add: externalOf_def extendedSizeOf_def example_defs)

lemma example_NewKey: "NewKey example_deps h = Inr h"
  by (simp add: example_deps_def)

lemma example_recordKey: "recordKey example_deps h i = Inr (h @ [ucast (IntToUint32 i)])"
  by (simp add: recordKey_def example_deps_def)

lemma example_keys_distinct: "inj_on (\<lambda>i. h @ [ucast (IntToUint32 i) :: byte]) {..<2}"
proof -
  have "{..<2 :: nat} = {0, 1}" by auto
  then show ?thesis by (simp add: IntToUint32_def)
qed

lemma no_faults_simps:
  "blobFault no_faults i = None" "putFault no_faults i k = None" "batchFault no_faults = None"
  "recordFault no_faults i = None"
  by (simp_all add: no_faults_def)

lemma empty_world_fresh: "records empty_world k = None"
  by (simp add: empty_world_def)

lemmas itemBins_eval = itemBins_def externalOf_def extendedSizeOf_def default_options_def
  no_faults_def metaOf_def example_defs GetBinsToStore_eval

subsection \<open>The UTXO counters (claim C2)\<close>

lemma GetBinsToStore_utxo_counts:
  assumes "GetBinsToStore d s now t bh ids hts idxs ext h cb cf lk = Inr batches"
  shows "\<exists>first extra counts.
           batches = first # extra \<and>
           bin_value first fields_TotalUtxos = Some (IntegerValue (int (length (Outputs t)))) \<and>
           bin_value first fields_TotalExtraRecs = Some (IntegerValue (int (length extra))) \<and>
           map (\<lambda>b. bin_value b fields_RecordUtxos) batches
             = map (\<lambda>n. Some (IntegerValue (int n))) counts \<and>
           sum_list counts = length (filter (storedAsUTXO d cb bh) (Outputs t))"
proof -
  from assms obtain utxoHashes utxos chunk chunks fI sz esz where
    ue: "utxoEntries d cb bh utxoHashes 0 (Outputs t) = Inr utxos"
    and cat: "concat (chunk # chunks) = utxos"
    and b: "batches =
       (shardOf (commonBinsOf s t bh h cb cf lk fI sz esz) chunk @
        firstRecordBins now bh ids hts idxs (Suc (length chunks)) (length utxos) @
        (if ext \<or> chunks \<noteq> []
         then [(fields_External, BoolValue True)]
         else [(fields_Inputs, ListValue (map Some (map (extendedInput d) (Inputs t)))),
               (fields_Outputs, ListValue (map (map_option (Output_Bytes d)) (Outputs t)))]))
       # map (shardOf (commonBinsOf s t bh h cb cf lk fI sz esz)) chunks"
    by (rule GetBinsToStore_shape)
  from utxoEntries_Inr [OF ue] have len: "length utxos = length (Outputs t)"
    and pat: "map (\<lambda>u. u \<noteq> None) utxos = map (storedAsUTXO d cb bh) (Outputs t)"
    by simp_all
  let ?count = "\<lambda>c. length (filter (\<lambda>utxo. utxo \<noteq> None) c)"
  let ?counts = "map ?count (chunk # chunks)"
  have total: "bin_value (hd batches) fields_TotalUtxos
                 = Some (IntegerValue (int (length (Outputs t))))"
    unfolding b by (simp only: list.sel bin_value_first_TotalUtxos len)
  have extra: "bin_value (hd batches) fields_TotalExtraRecs
                 = Some (IntegerValue (int (length (tl batches))))"
    unfolding b by (simp only: list.sel bin_value_first_TotalExtraRecs) simp
  have recs: "map (\<lambda>b. bin_value b fields_RecordUtxos) batches
                = map (\<lambda>n. Some (IntegerValue (int n))) ?counts"
    unfolding b
    by (simp add: bin_value_shard_RecordUtxos bin_value_shard_RecordUtxos' del: append_assoc)
  have "sum_list ?counts = length (filter (\<lambda>utxo. utxo \<noteq> None) (concat (chunk # chunks)))"
    by (rule sum_counts_concat)
  also have "\<dots> = length (filter (storedAsUTXO d cb bh) (Outputs t))"
    unfolding cat using pat by (rule count_via_map)
  finally have sum: "sum_list ?counts = length (filter (storedAsUTXO d cb bh) (Outputs t))" .
  from b total extra recs sum show ?thesis
    by (intro exI [of _ "hd batches"] exI [of _ "tl batches"] exI [of _ ?counts]) simp
qed

lemma sum_RecordUtxos_counts:
  "map (\<lambda>b. bin_value b fields_RecordUtxos) batches = map (\<lambda>n. Some (IntegerValue (int n))) counts
     \<Longrightarrow> sum_RecordUtxos batches = Some (int (sum_list counts))"
proof (induction batches arbitrary: counts)
  case Nil
  then show ?case by simp
next
  case (Cons b batches)
  then obtain n ns where "counts = n # ns" by (cases counts) auto
  with Cons show ?case by auto
qed

lemma GetBinsToStore_counters:
  assumes "GetBinsToStore d s now t bh ids hts idxs ext h cb cf lk = Inr batches"
  shows "batches \<noteq> [] \<and>
         bin_value (hd batches) fields_TotalExtraRecs
           = Some (IntegerValue (int (length batches) - 1)) \<and>
         TotalUtxos_of batches = Some (IntegerValue (int (length (Outputs t)))) \<and>
         sum_RecordUtxos batches
           = Some (int (length (filter (storedAsUTXO d cb bh) (Outputs t))))"
proof -
  from GetBinsToStore_utxo_counts [OF assms] obtain first extra counts where
    b: "batches = first # extra"
    and tot: "bin_value first fields_TotalUtxos = Some (IntegerValue (int (length (Outputs t))))"
    and ext: "bin_value first fields_TotalExtraRecs = Some (IntegerValue (int (length extra)))"
    and recs: "map (\<lambda>b. bin_value b fields_RecordUtxos) batches
                 = map (\<lambda>n. Some (IntegerValue (int n))) counts"
    and sum: "sum_list counts = length (filter (storedAsUTXO d cb bh) (Outputs t))"
    by blast
  from sum_RecordUtxos_counts [OF recs] sum b tot ext show ?thesis
    by (simp add: TotalUtxos_of_def)
qed

text \<open>The records of a transaction of one record carry the bins of \<open>GetBinsToStore\<close> and,
  behind them, the bin that \<open>sendStoreBatch\<close> adds: every bin of the first is read
  unchanged.\<close>

lemma single_record_readers:
  assumes "bins \<noteq> []" and "\<not> 1 < length bins"
  shows "TotalUtxos_of bins = Some v \<Longrightarrow> TotalUtxos_of [hd bins @ x] = Some v"
    and "sum_RecordUtxos bins = Some k \<Longrightarrow> sum_RecordUtxos [hd bins @ x] = Some k"
    and "bin_value (hd bins) name = Some v \<Longrightarrow> bin_value (hd [hd bins @ x]) name = Some v"
    and "\<forall>b \<in> set bins. bin_value b name = Some v
           \<Longrightarrow> \<forall>b \<in> set [hd bins @ x]. bin_value b name = Some v"
proof -
  from assms obtain b where b: "bins = [b]"
    by (cases bins) auto
  show "TotalUtxos_of bins = Some v \<Longrightarrow> TotalUtxos_of [hd bins @ x] = Some v"
    by (simp add: b TotalUtxos_of_def bin_value_append_found)
  show "sum_RecordUtxos bins = Some k \<Longrightarrow> sum_RecordUtxos [hd bins @ x] = Some k"
    by (auto simp: b bin_value_append_found split: option.splits BinValue.splits)
  show "bin_value (hd bins) name = Some v \<Longrightarrow> bin_value (hd [hd bins @ x]) name = Some v"
    by (simp add: b bin_value_append_found)
  show "\<forall>b \<in> set bins. bin_value b name = Some v
           \<Longrightarrow> \<forall>b \<in> set [hd bins @ x]. bin_value b name = Some v"
    by (simp add: b bin_value_append_found)
qed

text \<open>
  Claim C2 says that the stored \<open>total_utxos\<close> is the number of spendable outputs and that
  the \<open>record_utxos\<close> of the records sum to \<open>total_utxos\<close>. The code stores
  \<open>len(utxos)\<close>, the number of all outputs, as \<open>total_utxos\<close>. Claim C2 as amended, for a
  \<open>Create\<close> in a store that holds no record under the keys of the transaction (the key of
  its hash and the keys of its records) and that answers every call without a failure:
  when \<open>GetBinsToStore\<close> returns the bins of the transaction, \<open>Create\<close> returns the
  metadata, and afterwards the store holds the records of the transaction, as many as
  \<open>GetBinsToStore\<close> returned and one more than the \<open>total_extra_recs\<close> of the first; the
  \<open>total_utxos\<close> bin of the first record is the number of outputs of the transaction,
  counting those that are \<open>nil\<close> or not stored as a UTXO; every record has a
  \<open>record_utxos\<close> bin, and these sum to the number of outputs that are stored as UTXOs.
  Without the condition on the store the claim fails: a record that an earlier attempt
  has left under one of the keys is kept as it is.
\<close>

theorem Create_total_and_record_utxos:
  assumes meta: "TxMetaDataFromTx d t = Inr txMeta0"
    and parents: "parentsUpdated d w t opts = Inr w1"
    and item: "bItem = itemOf d t height opts (metaOf txMeta0 opts)"
    and bins: "itemBins d s r bItem = Inr bins"
    and key0: "NewKey d (txHash bItem) = Inr key0"
    and keys: "\<forall>i < length bins. recordKey d (txHash bItem) i = Inr (key i)"
    and distinct: "inj_on key {..<length bins}"
    and fresh0: "records w1 key0 = None"
    and fresh: "\<forall>i < length bins. records w1 (key i) = None"
    and noblob: "blobFault r 0 = None"
    and noput: "\<forall>i < length bins. putFault r 0 i = None"
    and nobatch: "batchFault r = None"
    and norecord: "recordFault r 0 = None"
  shows "fst (Create d s r w t height opts) = Returned (Inr (metaOf txMeta0 opts)) \<and>
         (\<exists>recs.
            storedRecords d (snd (Create d s r w t height opts)) (txHash bItem) (length bins)
              = map Some recs \<and>
            length recs = length bins \<and>
            bin_value (hd recs) fields_TotalExtraRecs
              = Some (IntegerValue (int (length recs) - 1)) \<and>
            TotalUtxos_of recs = Some (IntegerValue (int (length (Outputs t)))) \<and>
            sum_RecordUtxos recs
              = Some (int (length (filter (storedAsUTXO d (isCoinbase bItem) height)
                                     (Outputs t)))))"
proof -
  define recs where
    "recs = (if 1 < length bins then bins else [hd bins @ deleteAtHeightBins s bItem])"
  from Create_fresh_stores [OF meta parents item bins key0 keys distinct fresh0 fresh
      noblob noput nobatch norecord]
  have ret: "fst (Create d s r w t height opts) = Returned (Inr (metaOf txMeta0 opts))"
    and st: "storedRecords d (snd (Create d s r w t height opts)) (txHash bItem) (length bins)
               = map Some recs"
    by (simp_all add: recs_def)
  have g: "GetBinsToStore d s (unixMilli r) t height (blockIDs bItem) (blockHeights bItem)
             (subtreeIdxs bItem) (externalOf d s t) (txHash bItem) (isCoinbase bItem)
             (conflicting bItem) (locked bItem) = Inr bins"
    using bins by (simp add: itemBins_def item)
  from GetBinsToStore_counters [OF g]
  have ne: "bins \<noteq> []"
    and ex: "bin_value (hd bins) fields_TotalExtraRecs
               = Some (IntegerValue (int (length bins) - 1))"
    and tot: "TotalUtxos_of bins = Some (IntegerValue (int (length (Outputs t))))"
    and sum: "sum_RecordUtxos bins
                = Some (int (length (filter (storedAsUTXO d (isCoinbase bItem) height)
                                       (Outputs t))))"
    by simp_all
  have len: "length recs = length bins"
    using ne by (cases bins) (auto simp: recs_def)
  have "bin_value (hd recs) fields_TotalExtraRecs = Some (IntegerValue (int (length recs) - 1))"
    unfolding len using ex single_record_readers(3) [OF ne]
    by (simp add: recs_def)
  moreover have "TotalUtxos_of recs = Some (IntegerValue (int (length (Outputs t))))"
    using tot single_record_readers(1) [OF ne] by (simp add: recs_def)
  moreover have "sum_RecordUtxos recs
                = Some (int (length (filter (storedAsUTXO d (isCoinbase bItem) height)
                                       (Outputs t))))"
    using sum single_record_readers(2) [OF ne] by (simp add: recs_def)
  ultimately show ?thesis using ret st len by blast
qed

text \<open>Witness for C2: a transaction with three outputs, all stored as UTXOs, created in
  the empty store; its two records are stored.\<close>

theorem Create_total_and_record_utxos_witness:
  "fst (Create example_deps example_store no_faults empty_world
          (example_tx [Some example_out, Some example_out, Some example_out]) 100 default_options)
     = Returned (Inr \<lparr>meta_IsCoinbase = False, meta_Conflicting = False, meta_Locked = False\<rparr>) \<and>
   (\<exists>recs.
      storedRecords example_deps
        (snd (Create example_deps example_store no_faults empty_world
                (example_tx [Some example_out, Some example_out, Some example_out]) 100
                default_options)) [1] 2 = map Some recs \<and>
      length recs = 2 \<and>
      bin_value (hd recs) fields_TotalExtraRecs = Some (IntegerValue 1) \<and>
      TotalUtxos_of recs = Some (IntegerValue 3) \<and>
      sum_RecordUtxos recs = Some 3)"
proof -
  let ?t = "example_tx [Some example_out, Some example_out, Some example_out]"
  let ?m = "\<lparr>meta_IsCoinbase = False, meta_Conflicting = False, meta_Locked = False\<rparr>"
  define bItem where "bItem = itemOf example_deps ?t 100 default_options (metaOf ?m default_options)"
  define B where "B = projr (itemBins example_deps example_store no_faults bItem)"
  let ?key = "\<lambda>i. [1, ucast (IntToUint32 i)] :: bytes"
  have h: "txHash bItem = [1]"
    by (simp add: bItem_def default_options_def example_deps_def example_tx_def)
  have cb: "isCoinbase bItem = False"
    by (simp add: bItem_def default_options_def metaOf_def)
  have bins: "itemBins example_deps example_store no_faults bItem = Inr B"
    unfolding B_def bItem_def by (simp add: itemBins_eval)
  have len: "length B = 2"
    unfolding B_def bItem_def by (simp add: itemBins_eval)
  have key0: "NewKey example_deps (txHash bItem) = Inr [1]"
    unfolding h by (rule example_NewKey)
  have keys: "\<forall>i < length B. recordKey example_deps (txHash bItem) i = Inr (?key i)"
    unfolding h by (simp add: example_recordKey)
  have inj: "inj_on ?key {..<length B}"
    unfolding len using example_keys_distinct [of "[1]"] by simp
  have m: "metaOf ?m default_options = ?m"
    by (simp add: metaOf_def default_options_def)
  have n: "int (length (Outputs ?t)) = 3"
    "int (length (filter (storedAsUTXO example_deps False 100) (Outputs ?t))) = 3"
    by (simp_all add: example_defs storedAsUTXO_def)
  note inst = Create_total_and_record_utxos [OF example_meta example_parents bItem_def bins key0
      keys inj empty_world_fresh]
  have "\<forall>i < length B. records empty_world (?key i) = None"
    "blobFault no_faults 0 = None" "\<forall>i < length B. putFault no_faults 0 i = None"
    "batchFault no_faults = None" "recordFault no_faults 0 = None"
    by (simp_all add: empty_world_fresh no_faults_simps)
  from inst [OF this] show ?thesis
    unfolding h len cb m n by auto
qed

text \<open>Counterexample to C2 as stated: a partial transaction with one spendable output
  and one \<open>nil\<close> output, created in the empty store. \<open>Create\<close> accepts it; the stored
  \<open>total_utxos\<close> is 2, the number of spendable outputs is 1, and the \<open>record_utxos\<close> of
  its one record is 1.\<close>

theorem total_utxos_counts_unstored_outputs:
  "fst (Create example_deps example_store no_faults empty_world
          (example_partial_tx [Some example_out, None]) 100 default_options)
     = Returned (Inr \<lparr>meta_IsCoinbase = False, meta_Conflicting = False, meta_Locked = False\<rparr>) \<and>
   map (map_option (\<lambda>rec. (bin_value rec fields_TotalUtxos, bin_value rec fields_RecordUtxos)))
     (storedRecords example_deps
        (snd (Create example_deps example_store no_faults empty_world
                (example_partial_tx [Some example_out, None]) 100 default_options)) [1] 1)
     = [Some (Some (IntegerValue 2), Some (IntegerValue 1))] \<and>
   length (filter (storedAsUTXO example_deps False 100) [Some example_out, None]) = 1"
proof -
  let ?t = "example_partial_tx [Some example_out, None]"
  let ?m = "\<lparr>meta_IsCoinbase = False, meta_Conflicting = False, meta_Locked = False\<rparr>"
  define bItem where "bItem = itemOf example_deps ?t 100 default_options (metaOf ?m default_options)"
  define B where "B = projr (itemBins example_deps example_store no_faults bItem)"
  let ?key = "\<lambda>i. [1, ucast (IntToUint32 i)] :: bytes"
  have h: "txHash bItem = [1]"
    by (simp add: bItem_def default_options_def example_deps_def example_partial_tx_def)
  have bins: "itemBins example_deps example_store no_faults bItem = Inr B"
    unfolding B_def bItem_def by (simp add: itemBins_eval)
  have len: "length B = 1"
    unfolding B_def bItem_def by (simp add: itemBins_eval)
  have v: "bin_value (hd B) fields_TotalUtxos = Some (IntegerValue 2)"
    "bin_value (hd B) fields_RecordUtxos = Some (IntegerValue 1)"
    unfolding B_def bItem_def by (simp_all add: itemBins_eval bin_value_def)
  have dah: "deleteAtHeightBins example_store bItem = []"
    by (simp add: deleteAtHeightBins_def bItem_def default_options_def)
  have key0: "NewKey example_deps (txHash bItem) = Inr [1]"
    unfolding h by (rule example_NewKey)
  have keys: "\<forall>i < length B. recordKey example_deps (txHash bItem) i = Inr (?key i)"
    unfolding h by (simp add: example_recordKey)
  have inj: "inj_on ?key {..<length B}"
    unfolding len by (simp add: inj_on_def)
  have m: "metaOf ?m default_options = ?m"
    by (simp add: metaOf_def default_options_def)
  note inst = Create_fresh_stores [OF example_meta example_parents bItem_def bins key0
      keys inj empty_world_fresh]
  have "\<forall>i < length B. records empty_world (?key i) = None"
    "blobFault no_faults 0 = None" "\<forall>i < length B. putFault no_faults 0 i = None"
    "batchFault no_faults = None" "recordFault no_faults 0 = None"
    by (simp_all add: empty_world_fresh no_faults_simps)
  from inst [OF this] have
    "fst (Create example_deps example_store no_faults empty_world ?t 100 default_options)
       = Returned (Inr ?m)"
    "storedRecords example_deps
        (snd (Create example_deps example_store no_faults empty_world ?t 100 default_options))
        [1] 1 = [Some (hd B)]"
    unfolding h len m dah by simp_all
  moreover have "length (filter (storedAsUTXO example_deps False 100) [Some example_out, None]) = 1"
    by (simp add: example_defs storedAsUTXO_def)
  ultimately show ?thesis by (simp add: v)
qed

subsection \<open>Coinbase maturity (claim C8)\<close>

lemma uint_add_ucast16:
  "uint ((bh :: uint32) + ucast (m :: 16 word)) = (uint bh + uint m) mod 2 ^ 32"
proof -
  have "uint (ucast m :: uint32) = uint m"
    by (simp add: uint_up_ucast is_up)
  then show ?thesis by (simp add: uint_word_ariths)
qed

lemma GetBinsToStore_spending_height:
  assumes "GetBinsToStore d s now t bh ids hts idxs ext h True cf lk = Inr batches"
  shows "batches \<noteq> [] \<and>
         (\<forall>bins \<in> set batches.
            bin_value bins fields_SpendingHeight
              = Some (IntegerValue ((uint bh + uint (CoinbaseMaturity s)) mod 2 ^ 32)))"
proof -
  from assms obtain utxos :: "bytes option list" and chunk chunks fI sz esz where
    b: "batches =
       (shardOf (commonBinsOf s t bh h True cf lk fI sz esz) chunk @
        firstRecordBins now bh ids hts idxs (Suc (length chunks)) (length utxos) @
        (if ext \<or> chunks \<noteq> []
         then [(fields_External, BoolValue True)]
         else [(fields_Inputs, ListValue (map Some (map (extendedInput d) (Inputs t)))),
               (fields_Outputs, ListValue (map (map_option (Output_Bytes d)) (Outputs t)))]))
       # map (shardOf (commonBinsOf s t bh h True cf lk fI sz esz)) chunks"
    by (rule GetBinsToStore_shape)
  show ?thesis
    unfolding b
    by (auto simp: bin_value_shard_SpendingHeight bin_value_shard_SpendingHeight'
        uint_add_ucast16 simp del: append_assoc)
qed

text \<open>
  Claim C8 says that the stored \<open>spending_height\<close> of a coinbase transaction created at
  height \<open>h\<close> is \<open>h\<close> plus the coinbase maturity. The code adds in \<open>uint32\<close>. Claim C8 as
  amended, for a \<open>Create\<close> of a coinbase transaction in a store that holds no record under
  the keys of the transaction (the key of its hash and the keys of its records) and that
  answers every call without a failure: when \<open>GetBinsToStore\<close> returns the bins of the
  transaction, \<open>Create\<close> returns the metadata, and afterwards the store holds the records
  of the transaction, at least one, and every one of them carries a \<open>spending_height\<close>
  bin whose value is \<open>(h + maturity) mod 2^32\<close>, which is \<open>h + maturity\<close> whenever that
  sum is below \<open>2^32\<close>. Without the condition on the store the claim fails: a record that
  an earlier attempt, possibly at another height, has left under one of the keys is kept
  as it is.
\<close>

theorem coinbase_spending_height:
  assumes meta: "TxMetaDataFromTx d t = Inr txMeta0"
    and parents: "parentsUpdated d w t opts = Inr w1"
    and item: "bItem = itemOf d t height opts (metaOf txMeta0 opts)"
    and coinbase: "isCoinbase bItem"
    and bins: "itemBins d s r bItem = Inr bins"
    and key0: "NewKey d (txHash bItem) = Inr key0"
    and keys: "\<forall>i < length bins. recordKey d (txHash bItem) i = Inr (key i)"
    and distinct: "inj_on key {..<length bins}"
    and fresh0: "records w1 key0 = None"
    and fresh: "\<forall>i < length bins. records w1 (key i) = None"
    and noblob: "blobFault r 0 = None"
    and noput: "\<forall>i < length bins. putFault r 0 i = None"
    and nobatch: "batchFault r = None"
    and norecord: "recordFault r 0 = None"
  shows "fst (Create d s r w t height opts) = Returned (Inr (metaOf txMeta0 opts)) \<and>
         (\<exists>recs.
            storedRecords d (snd (Create d s r w t height opts)) (txHash bItem) (length bins)
              = map Some recs \<and>
            length recs = length bins \<and> recs \<noteq> [] \<and>
            (\<forall>rec \<in> set recs.
               bin_value rec fields_SpendingHeight
                 = Some (IntegerValue ((uint height + uint (CoinbaseMaturity s)) mod 2 ^ 32))))"
proof -
  define recs where
    "recs = (if 1 < length bins then bins else [hd bins @ deleteAtHeightBins s bItem])"
  from Create_fresh_stores [OF meta parents item bins key0 keys distinct fresh0 fresh
      noblob noput nobatch norecord]
  have ret: "fst (Create d s r w t height opts) = Returned (Inr (metaOf txMeta0 opts))"
    and st: "storedRecords d (snd (Create d s r w t height opts)) (txHash bItem) (length bins)
               = map Some recs"
    by (simp_all add: recs_def)
  have g: "GetBinsToStore d s (unixMilli r) t height (blockIDs bItem) (blockHeights bItem)
             (subtreeIdxs bItem) (externalOf d s t) (txHash bItem) True
             (conflicting bItem) (locked bItem) = Inr bins"
    using bins coinbase by (simp add: itemBins_def item)
  from GetBinsToStore_spending_height [OF g]
  have ne: "bins \<noteq> []"
    and sh: "\<forall>b \<in> set bins.
               bin_value b fields_SpendingHeight
                 = Some (IntegerValue ((uint height + uint (CoinbaseMaturity s)) mod 2 ^ 32))"
    by simp_all
  have len: "length recs = length bins"
    using ne by (cases bins) (auto simp: recs_def)
  have "\<forall>rec \<in> set recs.
               bin_value rec fields_SpendingHeight
                 = Some (IntegerValue ((uint height + uint (CoinbaseMaturity s)) mod 2 ^ 32))"
  proof (cases "1 < length bins")
    case True
    with sh show ?thesis by (simp add: recs_def)
  next
    case False
    from single_record_readers(4) [OF ne False sh] False show ?thesis
      by (simp add: recs_def)
  qed
  moreover from len ne have "recs \<noteq> []" by auto
  ultimately show ?thesis using ret st len by blast
qed

text \<open>Witness for C8: a coinbase transaction with three outputs, created at height 100
  with maturity 100 in the empty store; both of its records carry the spending height
  200.\<close>

theorem coinbase_spending_height_witness:
  "fst (Create example_deps example_store no_faults empty_world
          (example_tx [Some example_out, Some example_out, Some example_out]) 100
          (default_options\<lparr>opt_IsCoinbase := Some True\<rparr>))
     = Returned (Inr \<lparr>meta_IsCoinbase = False, meta_Conflicting = False, meta_Locked = False\<rparr>) \<and>
   (\<exists>recs.
      storedRecords example_deps
        (snd (Create example_deps example_store no_faults empty_world
                (example_tx [Some example_out, Some example_out, Some example_out]) 100
                (default_options\<lparr>opt_IsCoinbase := Some True\<rparr>))) [1] 2 = map Some recs \<and>
      bin_values fields_SpendingHeight recs = [Some (IntegerValue 200), Some (IntegerValue 200)])"
proof -
  let ?t = "example_tx [Some example_out, Some example_out, Some example_out]"
  let ?m = "\<lparr>meta_IsCoinbase = False, meta_Conflicting = False, meta_Locked = False\<rparr>"
  let ?opts = "default_options\<lparr>opt_IsCoinbase := Some True\<rparr>"
  define bItem where "bItem = itemOf example_deps ?t 100 ?opts (metaOf ?m ?opts)"
  define B where "B = projr (itemBins example_deps example_store no_faults bItem)"
  let ?key = "\<lambda>i. [1, ucast (IntToUint32 i)] :: bytes"
  have h: "txHash bItem = [1]"
    by (simp add: bItem_def default_options_def example_deps_def example_tx_def)
  have cb: "isCoinbase bItem"
    by (simp add: bItem_def)
  have bins: "itemBins example_deps example_store no_faults bItem = Inr B"
    unfolding B_def bItem_def by (simp add: itemBins_eval)
  have len: "length B = 2"
    unfolding B_def bItem_def by (simp add: itemBins_eval)
  have key0: "NewKey example_deps (txHash bItem) = Inr [1]"
    unfolding h by (rule example_NewKey)
  have keys: "\<forall>i < length B. recordKey example_deps (txHash bItem) i = Inr (?key i)"
    unfolding h by (simp add: example_recordKey)
  have inj: "inj_on ?key {..<length B}"
    unfolding len using example_keys_distinct [of "[1]"] by simp
  have m: "metaOf ?m ?opts = ?m"
    by (simp add: metaOf_def default_options_def)
  have n: "(uint (100 :: uint32) + uint (CoinbaseMaturity example_store)) mod 2 ^ 32 = 200"
    by (simp add: example_store_def)
  note inst = coinbase_spending_height [OF example_meta example_parents bItem_def cb bins key0
      keys inj empty_world_fresh]
  have "\<forall>i < length B. records empty_world (?key i) = None"
    "blobFault no_faults 0 = None" "\<forall>i < length B. putFault no_faults 0 i = None"
    "batchFault no_faults = None" "recordFault no_faults 0 = None"
    by (simp_all add: empty_world_fresh no_faults_simps)
  from inst [OF this, unfolded h len m n] obtain recs where
    ret: "fst (Create example_deps example_store no_faults empty_world ?t 100 ?opts)
            = Returned (Inr ?m)"
    and st: "storedRecords example_deps
               (snd (Create example_deps example_store no_faults empty_world ?t 100 ?opts))
               [1] 2 = map Some recs"
    and l2: "length recs = 2"
    and sh: "\<forall>rec \<in> set recs. bin_value rec fields_SpendingHeight = Some (IntegerValue 200)"
    by blast
  from l2 obtain a b where ab: "recs = [a, b]"
    by (cases recs; cases "tl recs") auto
  with sh have "bin_values fields_SpendingHeight recs
                  = [Some (IntegerValue 200), Some (IntegerValue 200)]"
    by (simp add: bin_values_def)
  with ret st show ?thesis by blast
qed

text \<open>Counterexample to C8 as stated: a coinbase transaction created at height
  \<open>2^32 - 1\<close> with maturity 100 in the empty store. \<open>Create\<close> accepts it; the stored
  spending height is 99, and the height plus the maturity is 4294967395.\<close>

theorem spending_height_wraps:
  "fst (Create example_deps example_store no_faults empty_world
          (example_tx [Some example_out]) 4294967295
          (default_options\<lparr>opt_IsCoinbase := Some True\<rparr>))
     = Returned (Inr \<lparr>meta_IsCoinbase = False, meta_Conflicting = False, meta_Locked = False\<rparr>) \<and>
   map (map_option (\<lambda>rec. bin_value rec fields_SpendingHeight))
     (storedRecords example_deps
        (snd (Create example_deps example_store no_faults empty_world
                (example_tx [Some example_out]) 4294967295
                (default_options\<lparr>opt_IsCoinbase := Some True\<rparr>))) [1] 1)
     = [Some (Some (IntegerValue 99))] \<and>
   uint (4294967295 :: uint32) + uint (CoinbaseMaturity example_store) = 4294967395"
proof -
  let ?t = "example_tx [Some example_out]"
  let ?m = "\<lparr>meta_IsCoinbase = False, meta_Conflicting = False, meta_Locked = False\<rparr>"
  let ?opts = "default_options\<lparr>opt_IsCoinbase := Some True\<rparr>"
  define bItem where "bItem = itemOf example_deps ?t 4294967295 ?opts (metaOf ?m ?opts)"
  define B where "B = projr (itemBins example_deps example_store no_faults bItem)"
  let ?key = "\<lambda>i. [1, ucast (IntToUint32 i)] :: bytes"
  have h: "txHash bItem = [1]"
    by (simp add: bItem_def default_options_def example_deps_def example_tx_def)
  have bins: "itemBins example_deps example_store no_faults bItem = Inr B"
    unfolding B_def bItem_def by (simp add: itemBins_eval)
  have len: "length B = 1"
    unfolding B_def bItem_def by (simp add: itemBins_eval)
  have v: "bin_value (hd B) fields_SpendingHeight = Some (IntegerValue 99)"
    unfolding B_def bItem_def by (simp add: itemBins_eval bin_value_def)
  have dah: "deleteAtHeightBins example_store bItem = []"
    by (simp add: deleteAtHeightBins_def bItem_def default_options_def)
  have key0: "NewKey example_deps (txHash bItem) = Inr [1]"
    unfolding h by (rule example_NewKey)
  have keys: "\<forall>i < length B. recordKey example_deps (txHash bItem) i = Inr (?key i)"
    unfolding h by (simp add: example_recordKey)
  have inj: "inj_on ?key {..<length B}"
    unfolding len by (simp add: inj_on_def)
  have m: "metaOf ?m ?opts = ?m"
    by (simp add: metaOf_def default_options_def)
  note inst = Create_fresh_stores [OF example_meta example_parents bItem_def bins key0
      keys inj empty_world_fresh]
  have "\<forall>i < length B. records empty_world (?key i) = None"
    "blobFault no_faults 0 = None" "\<forall>i < length B. putFault no_faults 0 i = None"
    "batchFault no_faults = None" "recordFault no_faults 0 = None"
    by (simp_all add: empty_world_fresh no_faults_simps)
  from inst [OF this] have
    "fst (Create example_deps example_store no_faults empty_world ?t 4294967295 ?opts)
       = Returned (Inr ?m)"
    "storedRecords example_deps
        (snd (Create example_deps example_store no_faults empty_world ?t 4294967295 ?opts))
        [1] 1 = [Some (hd B)]"
    unfolding h len m dah by simp_all
  moreover have "uint (4294967295 :: uint32) + uint (CoinbaseMaturity example_store) = 4294967395"
    by (simp add: example_store_def)
  ultimately show ?thesis by (simp add: v)
qed

subsection \<open>The first record always exists (claim C9)\<close>







subsection \<open>The batch-size boundary (claim C7)\<close>

lemma utxoEntries_map:
  assumes "utxoEntries d cb bh hs 0 outs = Inr utxos"
  shows "utxos = map (\<lambda>k. if storedAsUTXO d cb bh (outs ! k) then Some (hs ! k) else None)
                     [0..<length outs]"
proof (rule nth_equalityI)
  from utxoEntries_Inr [OF assms] show
    "length utxos = length (map (\<lambda>k. if storedAsUTXO d cb bh (outs ! k) then Some (hs ! k) else None)
                           [0..<length outs])" by simp
next
  fix i assume "i < length utxos"
  with utxoEntries_Inr [OF assms] have i: "i < length outs" by simp
  from utxoEntries_nth [OF assms i] i show
    "utxos ! i = map (\<lambda>k. if storedAsUTXO d cb bh (outs ! k) then Some (hs ! k) else None)
                   [0..<length outs] ! i" by simp
qed

text \<open>
  Claim C7 says that a transaction with \<open>utxo_batch_size + 1\<close> outputs has an extension
  record that holds exactly one UTXO. The extension record holds the one entry of the last
  output, and that entry is \<open>nil\<close> when the output is not stored as a UTXO. Claim C7 as
  amended, for a batch size from 1 to \<open>2^62 - 1\<close>, a transaction that \<open>sendStoreBatch\<close>
  does not mark external (below the size threshold, externalize-all off) and outside
  functions that return the fee and the UTXO hashes \<open>hs\<close>, one for every output: with
  exactly \<open>utxo_batch_size\<close> outputs \<open>GetBinsToStore\<close> returns one record, with
  \<open>total_extra_recs = 0\<close> and no \<open>external\<close> bin; with \<open>utxo_batch_size + 1\<close> outputs it
  returns exactly two records, the first has \<open>total_extra_recs = 1\<close> and the \<open>external\<close>
  bin set, and the extension record holds exactly one entry, that of the last output: the
  hash \<open>hs[utxo_batch_size]\<close> when that output is stored as a UTXO, with \<open>record_utxos\<close> 1,
  and \<open>nil\<close> otherwise, with \<open>record_utxos\<close> 0. In both cases the first record holds the
  entries of the first \<open>utxo_batch_size\<close> outputs, entry \<open>k\<close> being \<open>hs[k]\<close> when output
  \<open>k\<close> is stored as a UTXO and \<open>nil\<close> otherwise.
\<close>

theorem GetBinsToStore_batch_size_boundary:
  assumes notext: "\<not> externalOf d s t"
    and pos: "0 < utxoBatchSize s"
    and small: "utxoBatchSize s < 2 ^ 62"
    and fh: "feesAndHashes d t h bh = Inr (fee, hs)"
    and hlen: "length (Outputs t) \<le> length hs"
    and feeok: "uint fee \<le> 2 ^ 63 - 1"
  shows "(int (length (Outputs t)) = utxoBatchSize s \<longrightarrow>
           (\<exists>first.
              GetBinsToStore d s now t bh ids hts idxs (externalOf d s t) h cb cf lk = Inr [first] \<and>
              bin_value first fields_TotalExtraRecs = Some (IntegerValue 0) \<and>
              bin_value first fields_External = None \<and>
              bin_value first fields_Utxos
                = Some (ListValue
                    (map (\<lambda>k. if storedAsUTXO d cb bh (Outputs t ! k) then Some (hs ! k) else None)
                         [0..<nat (utxoBatchSize s)])))) \<and>
         (int (length (Outputs t)) = utxoBatchSize s + 1 \<longrightarrow>
           (\<exists>first extension.
              GetBinsToStore d s now t bh ids hts idxs (externalOf d s t) h cb cf lk
                = Inr [first, extension] \<and>
              bin_value first fields_TotalExtraRecs = Some (IntegerValue 1) \<and>
              bin_value first fields_External = Some (BoolValue True) \<and>
              bin_value first fields_Utxos
                = Some (ListValue
                    (map (\<lambda>k. if storedAsUTXO d cb bh (Outputs t ! k) then Some (hs ! k) else None)
                         [0..<nat (utxoBatchSize s)])) \<and>
              bin_value extension fields_Utxos
                = Some (ListValue
                    [if storedAsUTXO d cb bh (last (Outputs t))
                     then Some (hs ! nat (utxoBatchSize s)) else None]) \<and>
              bin_value extension fields_RecordUtxos
                = Some (IntegerValue (if storedAsUTXO d cb bh (last (Outputs t)) then 1 else 0))))"
proof -
  define n where "n = nat (utxoBatchSize s)"
  have npos: "0 < n" and nbs: "int n = utxoBatchSize s" using pos by (simp_all add: n_def)
  have n62: "int n < 2 ^ 62" using small nbs by simp
  let ?entry = "\<lambda>k. if storedAsUTXO d cb bh (Outputs t ! k) then Some (hs ! k) else None"
  from hlen obtain utxos where
    ue: "utxoEntries d cb bh hs 0 (Outputs t) = Inr utxos"
    using utxoEntries_succeeds [of 0 "Outputs t" hs d cb bh] by auto
  from utxoEntries_Inr [OF ue] have len: "length utxos = length (Outputs t)"
    by simp
  note um = utxoEntries_map [OF ue]
  have fi: "Uint64ToInt fee = Inr (uint fee)"
    using feeok by (simp add: Uint64ToInt_def)
  let ?CB = "commonBinsOf s t bh h cb cf lk (uint fee)
               (if Inputs t = [] then 0 else Tx_Size d t)
               (if Inputs t = [] then 0 else int (length (Tx_ExtendedBytes d t)))"
  have one: ?thesis if eq: "int (length (Outputs t)) = utxoBatchSize s"
  proof -
    from eq len nbs have l: "length utxos = n" by simp
    with npos have ne: "utxos \<noteq> []" and on: "Outputs t \<noteq> []" using len by auto
    have fit: "int (length utxos) + utxoBatchSize s \<le> 2 ^ 63"
      using l nbs n62 by simp
    have "splitLoop n utxos ?CB 0 = Inr [shardOf ?CB utxos]"
      using splitLoop_single [OF npos ne] l n62 by simp
    then have sp1: "splitIntoBatches s utxos ?CB = Inr (shardOf ?CB utxos # [])"
      by (simp add: splitIntoBatches_pos [OF pos fit] n_def)
    note u = GetBinsToStore_unfold [OF on fh ue fi sp1, of now ids hts idxs "externalOf d s t"]
    have ut: "utxos = map ?entry [0..<nat (utxoBatchSize s)]"
      using um l len by (simp add: n_def)
    have "int (length (Outputs t)) \<noteq> utxoBatchSize s + 1" using eq by simp
    moreover have "\<exists>first.
        GetBinsToStore d s now t bh ids hts idxs (externalOf d s t) h cb cf lk = Inr [first] \<and>
        bin_value first fields_TotalExtraRecs = Some (IntegerValue 0) \<and>
        bin_value first fields_External = None \<and>
        bin_value first fields_Utxos = Some (ListValue (map ?entry [0..<nat (utxoBatchSize s)]))"
      unfolding u using notext ut
      by (simp add: bin_value_first_TotalExtraRecs bin_value_first_External_absent
          bin_value_shard_Utxos del: append_assoc)
    ultimately show ?thesis by blast
  qed
  have two: ?thesis if eq: "int (length (Outputs t)) = utxoBatchSize s + 1"
  proof -
    from eq len nbs have l: "length utxos = n + 1" by simp
    then have on: "Outputs t \<noteq> []" using len by auto
    have fit: "int (length utxos) + utxoBatchSize s \<le> 2 ^ 63"
      using l nbs n62 by simp
    have "2 * int n < 2 ^ 63" using n62 by simp
    from splitLoop_two [OF npos l this]
    have "splitLoop n utxos ?CB 0 = Inr [shardOf ?CB (take n utxos), shardOf ?CB [utxos ! n]]" .
    then have sp2: "splitIntoBatches s utxos ?CB
                         = Inr (shardOf ?CB (take n utxos) # [shardOf ?CB [utxos ! n]])"
      by (simp add: splitIntoBatches_pos [OF pos fit] n_def)
    note u = GetBinsToStore_unfold [OF on fh ue fi sp2, of now ids hts idxs "externalOf d s t"]
    have lo: "length (Outputs t) = n + 1" using l len by simp
    have lastn: "last (Outputs t) = Outputs t ! n"
      using lo on by (simp add: last_conv_nth)
    have ent: "utxos ! n = (if storedAsUTXO d cb bh (last (Outputs t))
                            then Some (hs ! nat (utxoBatchSize s)) else None)"
      using utxoEntries_nth [OF ue, of n] lo lastn by (simp add: n_def)
    have "take n utxos = take n (map ?entry [0..<n + 1])"
      using um lo by simp
    also have "\<dots> = map ?entry [0..<n]"
      by (simp add: take_map del: upt_Suc)
    finally have tk: "take n utxos = map ?entry [0..<nat (utxoBatchSize s)]"
      by (simp add: n_def)
    have "int (length (Outputs t)) \<noteq> utxoBatchSize s" using eq by simp
    moreover have "\<exists>first extension.
        GetBinsToStore d s now t bh ids hts idxs (externalOf d s t) h cb cf lk
          = Inr [first, extension] \<and>
        bin_value first fields_TotalExtraRecs = Some (IntegerValue 1) \<and>
        bin_value first fields_External = Some (BoolValue True) \<and>
        bin_value first fields_Utxos = Some (ListValue (map ?entry [0..<nat (utxoBatchSize s)])) \<and>
        bin_value extension fields_Utxos
          = Some (ListValue [if storedAsUTXO d cb bh (last (Outputs t))
                             then Some (hs ! nat (utxoBatchSize s)) else None]) \<and>
        bin_value extension fields_RecordUtxos
          = Some (IntegerValue (if storedAsUTXO d cb bh (last (Outputs t)) then 1 else 0))"
      unfolding u using ent tk
      by (simp add: bin_value_first_TotalExtraRecs bin_value_first_External_present
          bin_value_shard_Utxos bin_value_shard_Utxos' bin_value_shard_RecordUtxos'
          del: append_assoc)
    ultimately show ?thesis by blast
  qed
  from one two show ?thesis by blast
qed

text \<open>Witness for C7: batch size 2, a transaction with two outputs and one with three.
  The hashes are \<open>[7]\<close> for every output.\<close>

theorem GetBinsToStore_batch_size_boundary_witness:
  "\<not> externalOf example_deps example_store (example_tx [Some example_out, Some example_out]) \<and>
   0 < utxoBatchSize example_store \<and> utxoBatchSize example_store < 2 ^ 62 \<and>
   (\<exists>first.
      GetBinsToStore example_deps example_store 0 (example_tx [Some example_out, Some example_out])
        100 [] [] []
        (externalOf example_deps example_store (example_tx [Some example_out, Some example_out]))
        [9] False False False = Inr [first] \<and>
      bin_value first fields_TotalExtraRecs = Some (IntegerValue 0) \<and>
      bin_value first fields_External = None \<and>
      bin_value first fields_Utxos = Some (ListValue [Some [7], Some [7]])) \<and>
   (\<exists>first extension.
      GetBinsToStore example_deps example_store 0
        (example_tx [Some example_out, Some example_out, Some example_out]) 100 [] [] []
        (externalOf example_deps example_store
           (example_tx [Some example_out, Some example_out, Some example_out]))
        [9] False False False = Inr [first, extension] \<and>
      bin_value first fields_External = Some (BoolValue True) \<and>
      bin_value first fields_Utxos = Some (ListValue [Some [7], Some [7]]) \<and>
      bin_value extension fields_Utxos = Some (ListValue [Some [7]]) \<and>
      bin_value extension fields_RecordUtxos = Some (IntegerValue 1))"
proof -
  let ?t2 = "example_tx [Some example_out, Some example_out]"
  let ?t3 = "example_tx [Some example_out, Some example_out, Some example_out]"
  have pos: "0 < utxoBatchSize example_store" by (simp add: example_store_def)
  have small: "utxoBatchSize example_store < 2 ^ 62" by (simp add: example_store_def)
  have fee: "uint (1 :: uint64) \<le> 2 ^ 63 - 1" by simp
  have n2: "\<not> externalOf example_deps example_store ?t2"
    by (simp add: externalOf_def extendedSizeOf_def example_defs)
  have n3: "\<not> externalOf example_deps example_store ?t3"
    by (simp add: externalOf_def extendedSizeOf_def example_defs)
  have f2: "feesAndHashes example_deps ?t2 [9] 100 = Inr (1, [[7], [7]])"
    by (simp add: feesAndHashes_def example_defs)
  have f3: "feesAndHashes example_deps ?t3 [9] 100 = Inr (1, [[7], [7], [7]])"
    by (simp add: feesAndHashes_def example_defs)
  have l2: "length (Outputs ?t2) \<le> length [[7 :: byte], [7]]"
    and l3: "length (Outputs ?t3) \<le> length [[7 :: byte], [7], [7]]"
    by (simp_all add: example_tx_def)
  have e2: "int (length (Outputs ?t2)) = utxoBatchSize example_store"
    and e3: "int (length (Outputs ?t3)) = utxoBatchSize example_store + 1"
    and s3: "storedAsUTXO example_deps False 100 (last (Outputs ?t3))"
    by (simp_all add: example_defs storedAsUTXO_def)
  have "[0..<Suc (Suc 0)] = [0, Suc 0]" by simp
  then have u2: "[0..<nat (utxoBatchSize example_store)] = [0, 1]"
    by (simp add: example_store_def numeral_2_eq_2)
  have m: "map (\<lambda>k. if storedAsUTXO example_deps False 100 (Outputs ?t2 ! k)
                     then Some ([[7 :: byte], [7]] ! k) else None) [0, 1] = [Some [7], Some [7]]"
    "map (\<lambda>k. if storedAsUTXO example_deps False 100 (Outputs ?t3 ! k)
                     then Some ([[7 :: byte], [7], [7]] ! k) else None) [0, 1]
       = [Some [7], Some [7]]"
    by (simp_all add: example_defs storedAsUTXO_def)
  have k2: "nat (utxoBatchSize example_store) = 2"
    by (simp add: example_store_def)
  note a_raw = GetBinsToStore_batch_size_boundary
         [OF n2 pos small f2 l2 fee, of 0 "[]" "[]" "[]" False False False,
          THEN conjunct1, THEN mp, OF e2]
  have a: "\<exists>first.
      GetBinsToStore example_deps example_store 0 ?t2 100 [] [] []
        (externalOf example_deps example_store ?t2) [9] False False False = Inr [first] \<and>
      bin_value first fields_TotalExtraRecs = Some (IntegerValue 0) \<and>
      bin_value first fields_External = None \<and>
      bin_value first fields_Utxos = Some (ListValue [Some [7], Some [7]])"
    using a_raw unfolding u2 m .
  note b_raw = GetBinsToStore_batch_size_boundary
         [OF n3 pos small f3 l3 fee, of 0 "[]" "[]" "[]" False False False,
          THEN conjunct2, THEN mp, OF e3]
  have b: "\<exists>first extension.
      GetBinsToStore example_deps example_store 0 ?t3 100 [] [] []
        (externalOf example_deps example_store ?t3) [9] False False False
         = Inr [first, extension] \<and>
      bin_value first fields_External = Some (BoolValue True) \<and>
      bin_value first fields_Utxos = Some (ListValue [Some [7], Some [7]]) \<and>
      bin_value extension fields_Utxos = Some (ListValue [Some [7]]) \<and>
      bin_value extension fields_RecordUtxos = Some (IntegerValue 1)"
    using b_raw unfolding u2 m by (simp add: s3 k2) blast
  from n2 pos small a b show ?thesis by blast
qed

text \<open>Counterexample to C7 as stated: batch size 2 and a partial transaction with three
  outputs, the last of them \<open>nil\<close>. The extension record holds the single entry \<open>nil\<close>
  and its \<open>record_utxos\<close> is 0: it holds no UTXO.\<close>

theorem extension_without_utxo:
  "map_sum id (bin_values fields_Utxos)
     (GetBinsToStore example_deps example_store 0
        (example_partial_tx [Some example_out, Some example_out, None]) 100 [] [] [] False [9]
        False False False)
     = Inr [Some (ListValue [Some [9], Some [9]]), Some (ListValue [None])] \<and>
   map_sum id (bin_values fields_RecordUtxos)
     (GetBinsToStore example_deps example_store 0
        (example_partial_tx [Some example_out, Some example_out, None]) 100 [] [] [] False [9]
        False False False)
     = Inr [Some (IntegerValue 2), Some (IntegerValue 0)]"
  by (simp add: example_defs GetBinsToStore_eval bin_values_def bin_value_def)

subsection \<open>A transaction without outputs (claim C3)\<close>

lemma prepareItem_no_outputs:
  "Outputs (tx bItem) = [] \<Longrightarrow> NewKey d (txHash bItem) = Inr key0 \<Longrightarrow>
     prepareItem d s r idx w bItem =
       Inr (BatchReadNoop, [Some (TeranodeError ERR_PROCESSING ''could not get bins to store'')], w)"
  by (simp add: prepareItem_def GetBinsToStore_def)

lemma afterBatchItem_no_outputs:
  "Outputs (tx bItem) = [] \<Longrightarrow> \<exists>sent. afterBatchItem d s r idx w bItem err = Inr (sent, w)"
  by (auto simp: afterBatchItem_def GetBinsToStore_def
      split: option.splits go_error.splits ResultCode.splits)

lemma sendStoreBatch_no_outputs:
  assumes no: "Outputs (tx bItem) = []" and key0: "NewKey d (txHash bItem) = Inr key0"
  shows "\<exists>rest. sendStoreBatch d s r w [bItem] =
           Inr ([Some (TeranodeError ERR_PROCESSING ''could not get bins to store'') # rest], w)"
proof -
  obtain err recErrs w2 where bo: "BatchOperate r w [BatchReadNoop] = (err, recErrs, w2)"
    by (cases "BatchOperate r w [BatchReadNoop]")
  then have w2: "w2 = w" and one: "\<exists>x. recErrs = [x]"
    by (auto simp: BatchOperate_def split: option.splits)
  from one obtain x where x: "recErrs = [x]" by blast
  from afterBatchItem_no_outputs [OF no, of d s r 0 w x] obtain sent2 where
    ab: "afterBatchItem d s r 0 w bItem x = Inr (sent2, w)" by blast
  show ?thesis
    using prepareItem_no_outputs [OF no key0, of s r 0 w] bo w2 x ab
    by (auto simp: sendStoreBatch_def split: option.splits go_error.splits ResultCode.splits)
qed

lemma Create_no_outputs_result:
  assumes no: "Outputs t = []"
    and meta: "TxMetaDataFromTx d t = Inr txMeta0"
    and parents: "parentsUpdated d w t opts = Inr w1"
    and key0: "NewKey d (case opt_TxID opts of Some h \<Rightarrow> h | None \<Rightarrow> TxIDChainHash d t)
                 = Inr key0"
  shows "Create d s r w t height opts
           = (Returned (Inl (TeranodeError ERR_PROCESSING ''could not get bins to store'')), w1)"
proof -
  from sendStoreBatch_no_outputs
         [of "itemOf d t height opts (metaOf txMeta0 opts)" d key0 s r w1] no key0
  obtain rest where
    "sendStoreBatch d s r w1 [itemOf d t height opts (metaOf txMeta0 opts)] =
       Inr ([Some (TeranodeError ERR_PROCESSING ''could not get bins to store'') # rest], w1)"
    by auto
  from Create_unfold [OF meta parents this] show ?thesis by simp
qed

text \<open>
  Claim C3 says that \<open>Create\<close> of a transaction without outputs fails with an
  \<open>InvalidArgument\<close> error and stores nothing. The error of the code is a processing
  error. Claim C3 as amended, for a transaction without outputs whose record key can be
  computed: whatever the stores answer, \<open>Create\<close> returns a processing error
  (\<open>ERR_PROCESSING\<close>) and writes no record and no blob of the transaction; the stores are
  as before the call, but for a transaction created as conflicting, where the update of
  its parents has been made before the outputs are looked at.
\<close>

theorem Create_without_outputs:
  assumes "Outputs t = []"
    and "NewKey d (case opt_TxID opts of Some h \<Rightarrow> h | None \<Rightarrow> TxIDChainHash d t) = Inr key0"
  shows "(\<exists>msg. fst (Create d s r w t height opts)
                  = Returned (Inl (TeranodeError ERR_PROCESSING msg))) \<and>
         snd (Create d s r w t height opts)
           = (case TxMetaDataFromTx d t of
                Inl e \<Rightarrow> w
              | Inr m \<Rightarrow>
                  if opt_Conflicting opts
                  then (case updateParentConflictingChildren d w t of
                          Inl e \<Rightarrow> w
                        | Inr w1 \<Rightarrow> w1)
                  else w)"
proof (cases "TxMetaDataFromTx d t")
  case (Inl e)
  then show ?thesis by (simp add: Create_def)
next
  case meta: (Inr m)
  show ?thesis
  proof (cases "parentsUpdated d w t opts")
    case (Inl e)
    with meta show ?thesis
      by (auto simp: Create_def Let_def parentsUpdated_def split: if_splits)
  next
    case (Inr w1)
    from Create_no_outputs_result [OF assms(1) meta Inr assms(2)] meta Inr show ?thesis
      by (auto simp: parentsUpdated_def split: if_splits)
  qed
qed

text \<open>Witness for C3: a transaction with an input and no output, created in the empty
  store.\<close>

theorem Create_without_outputs_witness:
  "Outputs (example_tx []) = [] \<and>
   (\<exists>msg. fst (Create example_deps example_store no_faults empty_world (example_tx []) 100
                  default_options)
            = Returned (Inl (TeranodeError ERR_PROCESSING msg))) \<and>
   snd (Create example_deps example_store no_faults empty_world (example_tx []) 100
          default_options) = empty_world"
proof -
  have no: "Outputs (example_tx []) = []" by (simp add: example_tx_def)
  have key0: "NewKey example_deps
                (case opt_TxID default_options of
                   Some h \<Rightarrow> h
                 | None \<Rightarrow> TxIDChainHash example_deps (example_tx [])) = Inr [1]"
    by (simp add: default_options_def example_deps_def example_tx_def)
  from Create_without_outputs [OF no key0, of example_store no_faults empty_world 100] no
  show ?thesis
    by (simp add: example_meta default_options_def)
qed

text \<open>Counterexample to C3 as stated: for a transaction without outputs the error that
  \<open>Create\<close> returns is a processing error, not an \<open>InvalidArgument\<close> error.\<close>

theorem no_outputs_is_a_processing_error:
  "Create example_deps example_store no_faults empty_world (example_tx []) 100 default_options
     = (Returned (Inl (TeranodeError ERR_PROCESSING ''could not get bins to store'')),
        empty_world) \<and>
   ERR_PROCESSING \<noteq> ERR_INVALID_ARGUMENT"
proof -
  have no: "Outputs (example_tx []) = []" by (simp add: example_tx_def)
  have key0: "NewKey example_deps
                (case opt_TxID default_options of
                   Some h \<Rightarrow> h
                 | None \<Rightarrow> TxIDChainHash example_deps (example_tx [])) = Inr [1]"
    by (simp add: default_options_def example_deps_def example_tx_def)
  from Create_no_outputs_result [OF no example_meta example_parents key0]
  show ?thesis by simp
qed

subsection \<open>A second \<open>Create\<close> (claim C4)\<close>

lemma Create_twice_multi_record:
  assumes meta: "TxMetaDataFromTx d t = Inr txMeta0"
    and parents: "\<And>w. parentsUpdated d w t opts = Inr w"
    and bItem_def: "bItem = itemOf d t height opts (metaOf txMeta0 opts)"
    and bins: "itemBins d s r bItem = Inr bins"
    and multi: "1 < length bins"
    and key0: "NewKey d (txHash bItem) = Inr key0"
    and keys: "\<forall>i < length bins. recordKey d (txHash bItem) i = Inr (key i)"
    and inj: "inj_on key {..<length bins}"
    and nb: "blobFault r 0 = None"
    and np: "\<forall>i < length bins. putFault r 0 i = None"
    and nbatch: "batchFault r = None"
    and nrec: "recordFault r 0 = None"
  shows "\<exists>w1. Create d s r w t height opts = (Returned (Inr (metaOf txMeta0 opts)), w1) \<and>
              Create d s r w1 t height opts = (Returned (Inr (metaOf txMeta0 opts)), w1)"
proof -
  from storeExternally_completes [OF keys inj nb np, of w] obtain w1 where
    run1: "storeExternally d r 0 w bItem bins = (None, w1, rev [0..<length bins])"
    and recs: "\<forall>i < length bins. records w1 (key i)
                 = (case records w (key i) of Some old \<Rightarrow> Some old | None \<Rightarrow> Some (bins ! i))"
    and blob: "blobs w1 (txHash bItem, fst (blobOf d bItem)) \<noteq> None"
    by blast
  from recs have pres: "\<forall>i < length bins. records w1 (key i) \<noteq> None"
    by (auto split: option.splits)
  have run2: "storeExternally d r 0 w1 bItem bins = (None, w1, rev [0..<length bins])"
    by (rule storeExternally_again [OF keys pres blob nb np])
  have s1: "sendStoreBatch d s r w [bItem] = Inr ([[None]], w1)"
    by (rule sendStoreBatch_single_noop
          [OF prepareItem_multi_record [OF key0 bins multi run1] nbatch nrec])
  have s2: "sendStoreBatch d s r w1 [bItem] = Inr ([[None]], w1)"
    by (rule sendStoreBatch_single_noop
          [OF prepareItem_multi_record [OF key0 bins multi run2] nbatch nrec])
  have "Create d s r w t height opts = (Returned (Inr (metaOf txMeta0 opts)), w1)"
    using Create_unfold [OF meta parents s1 [unfolded bItem_def]] by simp
  moreover have "Create d s r w1 t height opts = (Returned (Inr (metaOf txMeta0 opts)), w1)"
    using Create_unfold [OF meta parents s2 [unfolded bItem_def]] by simp
  ultimately show ?thesis by blast
qed

text \<open>
  Claim C4 says that a second \<open>Create\<close> of a transaction that has been created leaves the
  stored state unchanged and returns \<open>TxExists\<close>. For a transaction of more than one
  record the second \<open>Create\<close> goes through the external write protocol again: the blob
  store answers that the blob exists, every \<open>PutBins\<close> answers \<open>KEY_EXISTS_ERROR\<close> and is
  skipped, and \<open>nil\<close> is sent on \<open>done\<close>. On the transaction with three outputs and batch
  size 2, created twice in the empty store with no failure of the stores: the first
  \<open>Create\<close> returns the metadata, and the second \<open>Create\<close> returns the metadata too, not
  an error, and leaves the stores as they were.
\<close>

theorem second_create_of_multi_record_tx_returns_nil:
  "fst (Create example_deps example_store no_faults empty_world
          (example_tx [Some example_out, Some example_out, Some example_out]) 100 default_options)
     = Returned (Inr \<lparr>meta_IsCoinbase = False, meta_Conflicting = False, meta_Locked = False\<rparr>) \<and>
   Create example_deps example_store no_faults
     (snd (Create example_deps example_store no_faults empty_world
             (example_tx [Some example_out, Some example_out, Some example_out]) 100
             default_options))
     (example_tx [Some example_out, Some example_out, Some example_out]) 100 default_options
     = (Returned (Inr \<lparr>meta_IsCoinbase = False, meta_Conflicting = False, meta_Locked = False\<rparr>),
        snd (Create example_deps example_store no_faults empty_world
               (example_tx [Some example_out, Some example_out, Some example_out]) 100
               default_options))"
proof -
  let ?t = "example_tx [Some example_out, Some example_out, Some example_out]"
  let ?m = "\<lparr>meta_IsCoinbase = False, meta_Conflicting = False, meta_Locked = False\<rparr>"
  define bItem where "bItem = itemOf example_deps ?t 100 default_options (metaOf ?m default_options)"
  define B where "B = projr (itemBins example_deps example_store no_faults bItem)"
  let ?key = "\<lambda>i. [1, ucast (IntToUint32 i)] :: bytes"
  have h: "txHash bItem = [1]"
    by (simp add: bItem_def default_options_def example_deps_def example_tx_def)
  have bins: "itemBins example_deps example_store no_faults bItem = Inr B"
    unfolding B_def bItem_def by (simp add: itemBins_eval)
  have len: "length B = 2"
    unfolding B_def bItem_def by (simp add: itemBins_eval)
  have multi: "1 < length B" by (simp add: len)
  have key0: "NewKey example_deps (txHash bItem) = Inr [1]"
    unfolding h by (rule example_NewKey)
  have keys: "\<forall>i < length B. recordKey example_deps (txHash bItem) i = Inr (?key i)"
    unfolding h by (simp add: example_recordKey)
  have inj: "inj_on ?key {..<length B}"
    unfolding len using example_keys_distinct [of "[1]"] by simp
  have m: "metaOf ?m default_options = ?m"
    by (simp add: metaOf_def default_options_def)
  have np: "\<forall>i < length B. putFault no_faults 0 i = None"
    by (simp add: no_faults_simps)
  from Create_twice_multi_record [OF example_meta example_parents bItem_def bins multi key0
      keys inj no_faults_simps(1) np no_faults_simps(3) no_faults_simps(4), of empty_world]
  obtain w1 where
    c1: "Create example_deps example_store no_faults empty_world ?t 100 default_options
           = (Returned (Inr ?m), w1)"
    and c2: "Create example_deps example_store no_faults w1 ?t 100 default_options
           = (Returned (Inr ?m), w1)"
    unfolding m by blast
  show ?thesis by (simp add: c1 c2)
qed

subsection \<open>A failure of the blob store (claim C5)\<close>

lemma Create_blob_failure_multi_record:
  assumes meta: "TxMetaDataFromTx d t = Inr txMeta0"
    and parents: "parentsUpdated d w t opts = Inr w1"
    and bItem_def: "bItem = itemOf d t height opts (metaOf txMeta0 opts)"
    and bins: "itemBins d s r bItem = Inr bins"
    and multi: "1 < length bins"
    and key0: "NewKey d (txHash bItem) = Inr key0"
    and fb: "blobFault r 0 = Some e"
    and ne: "\<not> isBlobAlreadyExists e"
    and nbatch: "batchFault r = None"
    and nrec: "recordFault r 0 = None"
  shows "Create d s r w t height opts =
           (Returned (Inl (TeranodeError ERR_TX_EXISTS
              (if Inputs t = []
               then ''[StorePartialTransactionExternally] error writing output to external store''
               else ''[GetBinsToStore] error writing transaction to external store''))), w1)"
proof -
  define msg where "msg = (if Inputs t = []
               then ''[StorePartialTransactionExternally] error writing output to external store''
               else ''[GetBinsToStore] error writing transaction to external store'')"
  have run: "storeExternally d r 0 w1 bItem bins = (Some (TeranodeError ERR_TX_EXISTS msg), w1, [])"
    using storeExternally_blob_failure [OF fb ne, of d w1 bItem bins]
    by (simp add: msg_def bItem_def)
  have s1: "sendStoreBatch d s r w1 [bItem] = Inr ([[Some (TeranodeError ERR_TX_EXISTS msg)]], w1)"
    by (rule sendStoreBatch_single_noop
          [OF prepareItem_multi_record [OF key0 bins multi run] nbatch nrec])
  show ?thesis
    using Create_unfold [OF meta parents s1 [unfolded bItem_def]]
    by (simp add: msg_def)
qed

lemma Create_blob_failure_single_record:
  assumes meta: "TxMetaDataFromTx d t = Inr txMeta0"
    and parents: "parentsUpdated d w t opts = Inr w1"
    and bItem_def: "bItem = itemOf d t height opts (metaOf txMeta0 opts)"
    and bins: "itemBins d s r bItem = Inr bins"
    and single: "\<not> 1 < length bins"
    and ext: "externalOf d s t"
    and key0: "NewKey d (txHash bItem) = Inr key0"
    and fb: "blobFault r 0 = Some e"
    and ne: "\<not> isBlobAlreadyExists e"
    and nbatch: "batchFault r = None"
    and nrec: "recordFault r 0 = None"
  shows "Create d s r w t height opts =
           (Returned (Inl (TeranodeError ERR_TX_EXISTS
              (if Inputs t = []
               then ''error writing outputs to external store''
               else ''[sendStoreBatch] error batch writing transaction to external store''))), w1)"
proof -
  define msg where "msg = (if Inputs t = []
               then ''error writing outputs to external store''
               else ''[sendStoreBatch] error batch writing transaction to external store'')"
  have ext': "externalOf d s (tx bItem)" using ext by (simp add: bItem_def)
  have p: "prepareItem d s r 0 w1 bItem
             = Inr (BatchReadNoop, [Some (TeranodeError ERR_TX_EXISTS msg)], w1)"
    using prepareItem_single_record_blob_failure [OF key0 bins single ext' fb ne, of w1]
    by (simp add: msg_def bItem_def)
  have s1: "sendStoreBatch d s r w1 [bItem] = Inr ([[Some (TeranodeError ERR_TX_EXISTS msg)]], w1)"
    by (rule sendStoreBatch_single_noop [OF p nbatch nrec])
  show ?thesis
    using Create_unfold [OF meta parents s1 [unfolded bItem_def]]
    by (simp add: msg_def)
qed

text \<open>
  Claim C5 says that a failure of a blob write other than \<open>AlreadyExists\<close> is surfaced as a
  storage error. All four blob writes of create.go send \<open>errors.NewTxExistsError\<close> for it:
  the caller is told that the transaction exists. With a blob store that fails every
  write with an error of its own (\<open>disk full\<close>), in the empty store: \<open>Create\<close> of the
  transaction with three outputs (two records, the external write protocol) and \<open>Create\<close>
  of a transaction with one output under \<open>ExternalizeAllTransactions\<close> (one record, the
  blob write of \<open>sendStoreBatch\<close>) both return an error of kind \<open>ERR_TX_EXISTS\<close>, not
  \<open>ERR_STORAGE_ERROR\<close>, and write nothing. The other half of the claim holds on these
  inputs: when the blob is already there, the blob store answers \<open>AlreadyExists\<close> and
  \<open>Create\<close> goes on and returns the metadata.
\<close>

theorem blob_failure_is_reported_as_tx_exists:
  "Create example_deps example_store
     (no_faults\<lparr>blobFault := \<lambda>i. Some (ForeignError ''disk full'')\<rparr>) empty_world
     (example_tx [Some example_out, Some example_out, Some example_out]) 100 default_options
     = (Returned (Inl (TeranodeError ERR_TX_EXISTS
                         ''[GetBinsToStore] error writing transaction to external store'')),
        empty_world) \<and>
   Create example_deps (example_store\<lparr>ExternalizeAllTransactions := True\<rparr>)
     (no_faults\<lparr>blobFault := \<lambda>i. Some (ForeignError ''disk full'')\<rparr>) empty_world
     (example_tx [Some example_out]) 100 default_options
     = (Returned (Inl (TeranodeError ERR_TX_EXISTS
                         ''[sendStoreBatch] error batch writing transaction to external store'')),
        empty_world) \<and>
   fst (Create example_deps example_store no_faults
          (empty_world\<lparr>blobs := [([1], FileTypeTx) \<mapsto> [1, 2, 3]]\<rparr>)
          (example_tx [Some example_out, Some example_out, Some example_out]) 100 default_options)
     = Returned (Inr \<lparr>meta_IsCoinbase = False, meta_Conflicting = False, meta_Locked = False\<rparr>)"
proof -
  let ?t3 = "example_tx [Some example_out, Some example_out, Some example_out]"
  let ?t1 = "example_tx [Some example_out]"
  let ?m = "\<lparr>meta_IsCoinbase = False, meta_Conflicting = False, meta_Locked = False\<rparr>"
  let ?r = "no_faults\<lparr>blobFault := \<lambda>i. Some (ForeignError ''disk full'')\<rparr>"
  let ?s = "example_store\<lparr>ExternalizeAllTransactions := True\<rparr>"
  let ?w = "empty_world\<lparr>blobs := [([1 :: byte], FileTypeTx) \<mapsto> [1 :: byte, 2, 3]]\<rparr>"
  let ?key = "\<lambda>i. [1, ucast (IntToUint32 i)] :: bytes"
  define item3 where
    "item3 = itemOf example_deps ?t3 100 default_options (metaOf ?m default_options)"
  define item1 where
    "item1 = itemOf example_deps ?t1 100 default_options (metaOf ?m default_options)"
  define B3 where "B3 = projr (itemBins example_deps example_store ?r item3)"
  define B1 where "B1 = projr (itemBins example_deps ?s ?r item1)"
  define B0 where "B0 = projr (itemBins example_deps example_store no_faults item3)"
  have fault: "blobFault ?r 0 = Some (ForeignError ''disk full'')"
    "batchFault ?r = None" "recordFault ?r 0 = None"
    by (simp_all add: no_faults_def)
  have foreign: "\<not> isBlobAlreadyExists (ForeignError ''disk full'')"
    by (simp add: isBlobAlreadyExists_def)
  have inp: "Inputs ?t3 \<noteq> []" "Inputs ?t1 \<noteq> []" by (simp_all add: example_tx_def)
  have h3: "txHash item3 = [1]"
    by (simp add: item3_def default_options_def example_deps_def example_tx_def)
  have h1: "txHash item1 = [1]"
    by (simp add: item1_def default_options_def example_deps_def example_tx_def)
  have k3: "NewKey example_deps (txHash item3) = Inr [1]"
    unfolding h3 by (rule example_NewKey)
  have k1: "NewKey example_deps (txHash item1) = Inr [1]"
    unfolding h1 by (rule example_NewKey)
  have b3: "itemBins example_deps example_store ?r item3 = Inr B3"
    unfolding B3_def item3_def by (simp add: itemBins_eval)
  have l3: "1 < length B3"
    unfolding B3_def item3_def by (simp add: itemBins_eval)
  have b1: "itemBins example_deps ?s ?r item1 = Inr B1"
    unfolding B1_def item1_def by (simp add: itemBins_eval)
  have l1: "\<not> 1 < length B1"
    unfolding B1_def item1_def by (simp add: itemBins_eval)
  have e1: "externalOf example_deps ?s ?t1"
    by (simp add: externalOf_def)
  have b0: "itemBins example_deps example_store no_faults item3 = Inr B0"
    unfolding B0_def item3_def by (simp add: itemBins_eval)
  have l0: "length B0 = 2"
    unfolding B0_def item3_def by (simp add: itemBins_eval)
  have keys: "\<forall>i < length B0. recordKey example_deps (txHash item3) i = Inr (?key i)"
    unfolding h3 by (simp add: example_recordKey)
  have inj: "inj_on ?key {..<length B0}"
    unfolding l0 using example_keys_distinct [of "[1]"] by simp
  have m: "metaOf ?m default_options = ?m"
    by (simp add: metaOf_def default_options_def)
  have fresh: "records ?w [1] = None" "\<forall>i < length B0. records ?w (?key i) = None"
    "\<forall>i < length B0. putFault no_faults 0 i = None"
    by (simp_all add: empty_world_def no_faults_simps)
  from Create_blob_failure_multi_record [OF example_meta example_parents item3_def b3 l3 k3
      fault(1) foreign fault(2,3)] inp
  have a: "Create example_deps example_store ?r empty_world ?t3 100 default_options
     = (Returned (Inl (TeranodeError ERR_TX_EXISTS
                         ''[GetBinsToStore] error writing transaction to external store'')),
        empty_world)"
    by simp
  from Create_blob_failure_single_record [OF example_meta example_parents item1_def b1 l1 e1 k1
      fault(1) foreign fault(2,3)] inp
  have b: "Create example_deps ?s ?r empty_world ?t1 100 default_options
     = (Returned (Inl (TeranodeError ERR_TX_EXISTS
                         ''[sendStoreBatch] error batch writing transaction to external store'')),
        empty_world)"
    by simp
  from Create_fresh_stores [OF example_meta example_parents item3_def b0 k3 keys inj
      fresh(1,2) no_faults_simps(1) fresh(3) no_faults_simps(3,4)]
  have c: "fst (Create example_deps example_store no_faults ?w ?t3 100 default_options)
             = Returned (Inr ?m)"
    unfolding m by simp
  from a b c show ?thesis by simp
qed

end
